theory Spec2Isabelle
  imports Complex_Main
begin

section \<open>Values, errors and arrays\<close>

text \<open>
  The program is Python over NumPy. Finite floating-point numbers are modelled by the
  reals (rounding and overflow are not modelled); where the code distinguishes the
  non-finite values, a value is an \<open>fval\<close>. Every exception the modelled code can
  raise is a value of \<open>pyerr\<close>, and a function that can raise returns \<open>pyerr + 'a\<close>.
\<close>

datatype pyerr =
  ValueError | TypeError | NotImplementedError | IndexError | KeyError | AxisError | LinAlgError

datatype fval = Fin real | PInf | NInf | NaN

type_synonym vec = "real list"
type_synonym mat = "real list list"

text \<open>
  An n-dimensional NumPy array: its shape and its elements in row-major (C) order.
\<close>

record 'a ndarray =
  shape :: "nat list"
  elems :: "'a list"

fun indices :: "nat list \<Rightarrow> nat list list" where
  "indices [] = [[]]"
| "indices (n # ns) = concat (map (\<lambda>i. map ((#) i) (indices ns)) [0..<n])"

fun offset :: "nat list \<Rightarrow> nat list \<Rightarrow> nat" where
  "offset (n # ns) (i # is) = i * prod_list ns + offset ns is"
| "offset _ _ = 0"

definition item :: "'a ndarray \<Rightarrow> nat list \<Rightarrow> 'a" where
  "item a idx = elems a ! offset (shape a) idx"

text \<open>
  \<open>np.array(rows)\<close> for a list of one-dimensional arrays of equal length: a
  two-dimensional array, one row per list element; for the empty list the
  one-dimensional empty array of shape \<open>(0,)\<close>.
\<close>

definition np_array_rows :: "'a list list \<Rightarrow> 'a ndarray" where
  "np_array_rows rows =
     (case rows of
        [] \<Rightarrow> \<lparr>shape = [0], elems = []\<rparr>
      | r # _ \<Rightarrow> \<lparr>shape = [length rows, length r], elems = concat rows\<rparr>)"

text \<open>\<open>a.squeeze()\<close> drops every axis of length one; the row-major elements stay.\<close>

definition squeeze :: "'a ndarray \<Rightarrow> 'a ndarray" where
  "squeeze a = a\<lparr>shape := filter (\<lambda>n. n \<noteq> 1) (shape a)\<rparr>"

text \<open>\<open>a.transpose()\<close> reverses the axes.\<close>

definition transpose_nd :: "'a ndarray \<Rightarrow> 'a ndarray" where
  "transpose_nd a =
     \<lparr>shape = rev (shape a),
      elems = map (\<lambda>idx. item a (rev idx)) (indices (rev (shape a)))\<rparr>"

text \<open>
  \<open>np.any(a, axis=1)\<close>: an array without a second axis raises an axis error;
  otherwise the second axis is reduced by logical or.
\<close>

definition np_any_axis1 :: "bool ndarray \<Rightarrow> pyerr + bool ndarray" where
  "np_any_axis1 a =
     (case shape a of
        n0 # n1 # rest \<Rightarrow>
          Inr \<lparr>shape = n0 # rest,
               elems = map (\<lambda>idx. list_ex (\<lambda>k. item a (hd idx # k # tl idx)) [0..<n1])
                         (indices (n0 # rest))\<rparr>
      | _ \<Rightarrow> Inl AxisError)"

section \<open>The tube model (model.py)\<close>

text \<open>
  The fields of a constructed \<open>Model\<close>: the dimension, the joint Gaussian, its cells
  (\<open>_cc\<close>, \<open>_cA\<close>) and the two caches. A \<open>_list_logp\<close> entry is
  \<open>[ss, xx, yy, zz]\<close>, a \<open>_list_tube\<close> entry \<open>[ss, sdwidth, xx, yy, zz]\<close>;
  \<open>zz\<close> is \<open>None\<close> in two dimensions.
\<close>

type_synonym logp_entry = "fval ndarray \<times> real ndarray \<times> real ndarray \<times> real ndarray option"
type_synonym tube_entry = "real ndarray \<times> real \<times> real ndarray \<times> real ndarray \<times> real ndarray option"

record model =
  m_ndim :: nat
  m_mu_y :: vec
  m_sig_y :: mat
  m_cc :: "vec list"
  m_cA :: "mat list"
  list_tube :: "tube_entry list"
  list_logp :: "logp_entry list"

subsection \<open>Point clouds and the containment test\<close>

text \<open>
  \<open>_get_point_cloud\<close>: one cloud per pair of adjacent cells, the two ellipses
  concatenated and their duplicate rows removed. \<open>_getEllipse\<close> (an SVD and a
  sampled circle or sphere) and the helper \<open>unique_rows\<close> enter only through the
  clouds they yield and are parameters. Reading \<open>self._cc[0]\<close> of a model without
  cells raises.
\<close>

fun clouds :: "(vec \<Rightarrow> mat \<Rightarrow> vec list) \<Rightarrow> (vec list \<Rightarrow> vec list) \<Rightarrow> vec list \<Rightarrow>
    (vec \<times> mat) list \<Rightarrow> vec list list" where
  "clouds ell uniq Yi [] = []"
| "clouds ell uniq Yi ((c, A) # rest) =
     (let Yi1 = ell c A in uniq (Yi @ Yi1) # clouds ell uniq Yi1 rest)"

definition get_point_cloud :: "(vec \<Rightarrow> mat \<Rightarrow> real \<Rightarrow> nat \<Rightarrow> vec list) \<Rightarrow> (vec list \<Rightarrow> vec list) \<Rightarrow>
    model \<Rightarrow> real \<Rightarrow> nat \<Rightarrow> pyerr + vec list list" where
  "get_point_cloud getEllipse unique_rows m sdwidth nsamples =
     (case zip (m_cc m) (m_cA m) of
        [] \<Rightarrow> Inl IndexError
      | (c, A) # rest \<Rightarrow>
          Inr (clouds (\<lambda>c A. getEllipse c A sdwidth nsamples) unique_rows
                 (getEllipse c A sdwidth nsamples) rest))"

text \<open>
  \<open>isInside_pnts\<close>: \<open>in_hull P Y\<close> (a helper, a parameter here) yields one boolean
  per point of \<open>P\<close> for the cloud \<open>Y\<close>; \<open>p.map\<close> keeps the order of the clouds. The
  slab-by-point array is squeezed, transposed and reduced along axis 1.
\<close>

definition isInside_pnts :: "(vec list \<Rightarrow> vec list \<Rightarrow> bool list) \<Rightarrow>
    (vec \<Rightarrow> mat \<Rightarrow> real \<Rightarrow> nat \<Rightarrow> vec list) \<Rightarrow> (vec list \<Rightarrow> vec list) \<Rightarrow>
    model \<Rightarrow> vec list \<Rightarrow> real \<Rightarrow> nat \<Rightarrow> pyerr + bool ndarray" where
  "isInside_pnts in_hull getEllipse unique_rows m P sdwidth nsamples =
     (case get_point_cloud getEllipse unique_rows m sdwidth nsamples of
        Inl e \<Rightarrow> Inl e
      | Inr list_Y \<Rightarrow>
          (let list_these_inside = map (in_hull P) list_Y;
               arr_these_inside = transpose_nd (squeeze (np_array_rows list_these_inside))
           in np_any_axis1 arr_these_inside))"

subsection \<open>Grids and points\<close>

text \<open>
  \<open>np.size(a, axis)\<close> is \<open>a.shape[axis]\<close>; \<open>np.size(None, axis)\<close> reads the empty
  shape of a zero-dimensional array.
\<close>

definition np_size :: "'a ndarray \<Rightarrow> nat \<Rightarrow> pyerr + nat" where
  "np_size a ax = (if ax < length (shape a) then Inr (shape a ! ax) else Inl IndexError)"

definition np_size_opt :: "'a ndarray option \<Rightarrow> nat \<Rightarrow> pyerr + nat" where
  "np_size_opt a ax = (case a of None \<Rightarrow> Inl IndexError | Some b \<Rightarrow> np_size b ax)"

text \<open>
  \<open>a[i, j]\<close> and \<open>a[i, j, k]\<close>, read as a number. The model covers grids of the
  model's own rank (two-dimensional arrays for \<open>ndim = 2\<close>, three-dimensional ones for
  \<open>ndim = 3\<close>, as \<open>np.mgrid\<close> yields them); for an array of another rank the read is
  reported as an index error, which is what NumPy raises for a lower rank.
\<close>

definition item_at :: "'a ndarray \<Rightarrow> nat list \<Rightarrow> pyerr + 'a" where
  "item_at a idx =
     (if length idx = length (shape a) \<and> list_all2 (<) idx (shape a)
      then Inr (item a idx) else Inl IndexError)"

fun sequence_err :: "(pyerr + 'a) list \<Rightarrow> pyerr + 'a list" where
  "sequence_err [] = Inr []"
| "sequence_err (Inl e # _) = Inl e"
| "sequence_err (Inr x # rest) =
     (case sequence_err rest of Inl e \<Rightarrow> Inl e | Inr xs \<Rightarrow> Inr (x # xs))"

text \<open>
  \<open>_grid2points\<close>: the points of the grid in the order of the nested loops, with
  their indices. \<open>np.concatenate\<close> of an empty list of points raises.
\<close>

definition grid2points :: "nat \<Rightarrow> real ndarray \<Rightarrow> real ndarray \<Rightarrow> real ndarray option \<Rightarrow>
    pyerr + (vec list \<times> nat list list)" where
  "grid2points ndim xx yy zz =
     (case np_size xx 0 of Inl e \<Rightarrow> Inl e | Inr nx \<Rightarrow>
      case np_size yy 1 of Inl e \<Rightarrow> Inl e | Inr ny \<Rightarrow>
      case (if ndim = 3 then np_size_opt zz 2 else Inr 0) of Inl e \<Rightarrow> Inl e | Inr nz \<Rightarrow>
      if ndim = 2 then
        (let Y_idx = concat (map (\<lambda>ix. map (\<lambda>iy. [ix, iy]) [0..<ny]) [0..<nx]) in
         case sequence_err (map (\<lambda>idx.
                case item_at xx [idx ! 0, 0] of Inl e \<Rightarrow> Inl e | Inr x1 \<Rightarrow>
                case item_at yy [0, idx ! 1] of Inl e \<Rightarrow> Inl e | Inr y1 \<Rightarrow>
                Inr [x1, y1]) Y_idx) of
           Inl e \<Rightarrow> Inl e
         | Inr Y_pos \<Rightarrow> if Y_pos = [] then Inl ValueError else Inr (Y_pos, Y_idx))
      else if ndim = 3 then
        (let Y_idx = concat (map (\<lambda>ix. concat (map (\<lambda>iy. map (\<lambda>iz. [ix, iy, iz]) [0..<nz])
                                             [0..<ny])) [0..<nx]) in
         case zz of None \<Rightarrow> Inl IndexError | Some zz' \<Rightarrow>
         case sequence_err (map (\<lambda>idx.
                case item_at xx [idx ! 0, 0, 0] of Inl e \<Rightarrow> Inl e | Inr x1 \<Rightarrow>
                case item_at yy [0, idx ! 1, 0] of Inl e \<Rightarrow> Inl e | Inr y1 \<Rightarrow>
                case item_at zz' [0, 0, idx ! 2] of Inl e \<Rightarrow> Inl e | Inr z1 \<Rightarrow>
                Inr [x1, y1, z1]) Y_idx) of
           Inl e \<Rightarrow> Inl e
         | Inr Y_pos \<Rightarrow> if Y_pos = [] then Inl ValueError else Inr (Y_pos, Y_idx))
      else Inl NotImplementedError)"

text \<open>
  \<open>_points2grid\<close>: the grid's shape is one more than the largest index per axis
  (\<open>np.max\<close> of no index raises); the grid starts as zeros and is filled point by
  point with \<open>s[i]\<close>, which raises when \<open>s\<close> has no axis left to index.
\<close>

fun fill :: "'a ndarray \<Rightarrow> (nat \<times> nat list) list \<Rightarrow> 'a ndarray \<Rightarrow> pyerr + 'a ndarray" where
  "fill s [] ss = Inr ss"
| "fill s ((i, y_idx) # rest) ss =
     (case item_at s [i] of
        Inl e \<Rightarrow> Inl e
      | Inr v \<Rightarrow> fill s rest (ss\<lparr>elems := (elems ss)[offset (shape ss) y_idx := v]\<rparr>))"

definition points2grid :: "'a \<Rightarrow> 'a ndarray \<Rightarrow> nat list list \<Rightarrow> pyerr + 'a ndarray" where
  "points2grid zero s Y_idx =
     (case Y_idx of
        [] \<Rightarrow> Inl ValueError
      | y0 # ys \<Rightarrow>
          (let this_shape = map Suc (foldl (map2 max) y0 ys)
           in fill s (enumerate 0 Y_idx)
                \<lparr>shape = this_shape, elems = replicate (prod_list this_shape) zero\<rparr>))"

subsection \<open>Log-density on a grid\<close>

fun isnan :: "fval \<Rightarrow> bool" where
  "isnan NaN = True"
| "isnan _ = False"

fun isfinite :: "fval \<Rightarrow> bool" where
  "isfinite (Fin _) = True"
| "isfinite _ = False"

text \<open>The smaller of two values neither of which is NaN.\<close>

fun fmin :: "fval \<Rightarrow> fval \<Rightarrow> fval" where
  "fmin NInf _ = NInf"
| "fmin _ NInf = NInf"
| "fmin PInf b = b"
| "fmin a PInf = a"
| "fmin (Fin a) (Fin b) = Fin (min a b)"
| "fmin a b = a"

text \<open>
  \<open>np.nanmin\<close>: the minimum of the values that are not NaN; NaN (with a warning)
  when every value is NaN. An empty array raises.
\<close>

definition np_nanmin :: "fval list \<Rightarrow> pyerr + fval" where
  "np_nanmin vs =
     (if vs = [] then Inl ValueError
      else case filter (\<lambda>v. \<not> isnan v) vs of
             [] \<Rightarrow> Inr NaN
           | w # ws \<Rightarrow> Inr (foldl fmin w ws))"

text \<open>\<open>ss[np.isnan(ss)] = np.nanmin(ss)\<close>\<close>

definition replace_nan :: "fval ndarray \<Rightarrow> pyerr + fval ndarray" where
  "replace_nan ss =
     (case np_nanmin (elems ss) of
        Inl e \<Rightarrow> Inl e
      | Inr mn \<Rightarrow> Inr (ss\<lparr>elems := map (\<lambda>v. if isnan v then mn else v) (elems ss)\<rparr>))"

text \<open>
  \<open>_eval_logp\<close>: the helper \<open>gauss_logLc\<close> with the model's cells (the parameter
  \<open>logLc\<close>) is mapped over the points; the list of values becomes an array and is
  squeezed.
\<close>

definition eval_logp :: "(vec \<Rightarrow> fval) \<Rightarrow> vec list \<Rightarrow> fval ndarray" where
  "eval_logp logLc Y_pos = squeeze \<lparr>shape = [length Y_pos], elems = map logLc Y_pos\<rparr>"

subsection \<open>Comparing grids\<close>

text \<open>
  \<open>np.all(a == b)\<close> compares elementwise after broadcasting: shapes are aligned at
  their last axes, and an axis of length one is stretched. What \<open>==\<close> does for shapes
  that do not broadcast depends on the NumPy version (\<open>False\<close> with a warning before
  1.25, a \<open>ValueError\<close> since) and is the parameter \<open>mm\<close>.
\<close>

fun bshape :: "nat list \<Rightarrow> nat list \<Rightarrow> nat list option" where
  "bshape [] ys = Some ys"
| "bshape xs [] = Some xs"
| "bshape (x # xs) (y # ys) =
     (if x = y \<or> y = 1 then map_option ((#) x) (bshape xs ys)
      else if x = 1 then map_option ((#) y) (bshape xs ys)
      else None)"

definition broadcast_shape :: "nat list \<Rightarrow> nat list \<Rightarrow> nat list option" where
  "broadcast_shape s t = map_option rev (bshape (rev s) (rev t))"

definition bitem :: "'a ndarray \<Rightarrow> nat list \<Rightarrow> 'a" where
  "bitem a idx =
     item a (map2 (\<lambda>n i. if n = 1 then 0 else i) (shape a)
               (drop (length idx - length (shape a)) idx))"

definition np_all_eq :: "(pyerr + bool) \<Rightarrow> 'a ndarray \<Rightarrow> 'a ndarray \<Rightarrow> pyerr + bool" where
  "np_all_eq mm a b =
     (case broadcast_shape (shape a) (shape b) of
        None \<Rightarrow> mm
      | Some s \<Rightarrow> Inr (list_all (\<lambda>idx. bitem a idx = bitem b idx) (indices s)))"

text \<open>
  The same for the optional \<open>zz\<close>: \<open>None == None\<close> is true, and an array compared
  with \<open>None\<close> is false at every element.
\<close>

definition np_all_eq_opt :: "(pyerr + bool) \<Rightarrow> 'a ndarray option \<Rightarrow> 'a ndarray option \<Rightarrow> pyerr + bool" where
  "np_all_eq_opt mm a b =
     (case (a, b) of
        (None, None) \<Rightarrow> Inr True
      | (Some a', None) \<Rightarrow> Inr (elems a' = [])
      | (None, Some b') \<Rightarrow> Inr (elems b' = [])
      | (Some a', Some b') \<Rightarrow> np_all_eq mm a' b')"

text \<open>Python's \<open>and\<close>: the right operand is evaluated only when the left one is true.\<close>

definition and_then :: "pyerr + bool \<Rightarrow> pyerr + bool \<Rightarrow> pyerr + bool" where
  "and_then p q = (case p of Inl e \<Rightarrow> Inl e | Inr False \<Rightarrow> Inr False | Inr True \<Rightarrow> q)"

definition same_grid :: "(pyerr + bool) \<Rightarrow> real ndarray \<Rightarrow> real ndarray \<Rightarrow> real ndarray option \<Rightarrow>
    real ndarray \<Rightarrow> real ndarray \<Rightarrow> real ndarray option \<Rightarrow> pyerr + bool" where
  "same_grid mm xx1 yy1 zz1 xx yy zz =
     and_then (np_all_eq mm xx1 xx) (and_then (np_all_eq mm yy1 yy) (np_all_eq_opt mm zz1 zz))"

text \<open>
  The loop over \<open>_list_logp\<close>: every entry is compared, and the last entry that
  matches supplies \<open>ss\<close>.
\<close>

fun cached_logp :: "(pyerr + bool) \<Rightarrow> logp_entry list \<Rightarrow> real ndarray \<Rightarrow> real ndarray \<Rightarrow>
    real ndarray option \<Rightarrow> fval ndarray option \<Rightarrow> pyerr + fval ndarray option" where
  "cached_logp mm [] xx yy zz ss = Inr ss"
| "cached_logp mm ((ss1, xx1, yy1, zz1) # rest) xx yy zz ss =
     (case same_grid mm xx1 yy1 zz1 xx yy zz of
        Inl e \<Rightarrow> Inl e
      | Inr True \<Rightarrow> cached_logp mm rest xx yy zz (Some ss1)
      | Inr False \<Rightarrow> cached_logp mm rest xx yy zz ss)"

text \<open>The grid computed on a cache miss, before its NaNs are replaced.\<close>

definition logp_grid :: "(vec \<Rightarrow> fval) \<Rightarrow> nat \<Rightarrow> real ndarray \<Rightarrow> real ndarray \<Rightarrow>
    real ndarray option \<Rightarrow> pyerr + fval ndarray" where
  "logp_grid logLc ndim xx yy zz =
     (case grid2points ndim xx yy zz of
        Inl e \<Rightarrow> Inl e
      | Inr (Y_pos, Y_idx) \<Rightarrow> points2grid (Fin 0) (eval_logp logLc Y_pos) Y_idx)"

text \<open>
  \<open>evalLogLikelihood\<close> returns the grid of values and the model with its cache as the
  call leaves it.
\<close>

definition evalLogLikelihood :: "(pyerr + bool) \<Rightarrow> (vec \<Rightarrow> fval) \<Rightarrow> model \<Rightarrow> real ndarray \<Rightarrow>
    real ndarray \<Rightarrow> real ndarray option \<Rightarrow> pyerr + (fval ndarray \<times> model)" where
  "evalLogLikelihood mm logLc m xx yy zz =
     (if shape xx \<noteq> shape yy then Inl ValueError
      else case cached_logp mm (list_logp m) xx yy zz None of
             Inl e \<Rightarrow> Inl e
           | Inr (Some ss) \<Rightarrow> Inr (ss, m)
           | Inr None \<Rightarrow>
               (case logp_grid logLc (m_ndim m) xx yy zz of
                  Inl e \<Rightarrow> Inl e
                | Inr ss0 \<Rightarrow>
                    (case replace_nan ss0 of
                       Inl e \<Rightarrow> Inl e
                     | Inr ss \<Rightarrow> Inr (ss, m\<lparr>list_logp := list_logp m @ [(ss, xx, yy, zz)]\<rparr>))))"

text \<open>
  \<open>isInside_grid\<close>: the same scheme over \<open>_list_tube\<close>, whose entries also carry
  the width. The boolean answers are stored into a grid of floats.
\<close>

fun cached_tube :: "(pyerr + bool) \<Rightarrow> tube_entry list \<Rightarrow> real \<Rightarrow> real ndarray \<Rightarrow> real ndarray \<Rightarrow>
    real ndarray option \<Rightarrow> real ndarray option \<Rightarrow> pyerr + real ndarray option" where
  "cached_tube mm [] sdwidth xx yy zz ss = Inr ss"
| "cached_tube mm ((ss1, sdwidth1, xx1, yy1, zz1) # rest) sdwidth xx yy zz ss =
     (case and_then (same_grid mm xx1 yy1 zz1 xx yy zz) (Inr (sdwidth1 = sdwidth)) of
        Inl e \<Rightarrow> Inl e
      | Inr True \<Rightarrow> cached_tube mm rest sdwidth xx yy zz (Some ss1)
      | Inr False \<Rightarrow> cached_tube mm rest sdwidth xx yy zz ss)"

definition isInside_grid :: "(pyerr + bool) \<Rightarrow> (vec list \<Rightarrow> vec list \<Rightarrow> bool list) \<Rightarrow>
    (vec \<Rightarrow> mat \<Rightarrow> real \<Rightarrow> nat \<Rightarrow> vec list) \<Rightarrow> (vec list \<Rightarrow> vec list) \<Rightarrow>
    model \<Rightarrow> real \<Rightarrow> real ndarray \<Rightarrow> real ndarray \<Rightarrow> real ndarray option \<Rightarrow>
    pyerr + (real ndarray \<times> model)" where
  "isInside_grid mm in_hull getEllipse unique_rows m sdwidth xx yy zz =
     (if shape xx \<noteq> shape yy then Inl ValueError
      else case cached_tube mm (list_tube m) sdwidth xx yy zz None of
             Inl e \<Rightarrow> Inl e
           | Inr (Some ss) \<Rightarrow> Inr (ss, m)
           | Inr None \<Rightarrow>
               (case grid2points (m_ndim m) xx yy zz of
                  Inl e \<Rightarrow> Inl e
                | Inr (Y_pos, Y_idx) \<Rightarrow>
                    (case isInside_pnts in_hull getEllipse unique_rows m Y_pos sdwidth 12 of
                       Inl e \<Rightarrow> Inl e
                     | Inr s \<Rightarrow>
                         (case points2grid 0
                                 \<lparr>shape = shape s,
                                  elems = map (\<lambda>b. if b then 1 else 0) (elems s)\<rparr> Y_idx of
                            Inl e \<Rightarrow> Inl e
                          | Inr ss \<Rightarrow>
                              Inr (ss, m\<lparr>list_tube :=
                                           list_tube m @ [(ss, sdwidth, xx, yy, zz)]\<rparr>)))))"

section \<open>The Gaussian process (gaussianprocess.py)\<close>

subsection \<open>Vectors and matrices\<close>

text \<open>
  A column vector is the list of its entries, a matrix the list of its rows. The
  functions below are the NumPy operations the estimators use, on operands whose
  shapes agree.
\<close>

definition nth_err :: "'a list \<Rightarrow> nat \<Rightarrow> pyerr + 'a" where
  "nth_err xs i = (if i < length xs then Inr (xs ! i) else Inl IndexError)"

definition vadd :: "vec \<Rightarrow> vec \<Rightarrow> vec" where
  "vadd u v = map2 (+) u v"

definition vsub :: "vec \<Rightarrow> vec \<Rightarrow> vec" where
  "vsub u v = map2 (-) u v"

definition vmul :: "vec \<Rightarrow> vec \<Rightarrow> vec" where
  "vmul u v = map2 (*) u v"

definition vdiv :: "vec \<Rightarrow> real \<Rightarrow> vec" where
  "vdiv u k = map (\<lambda>a. a / k) u"

definition madd :: "mat \<Rightarrow> mat \<Rightarrow> mat" where
  "madd A B = map2 vadd A B"

definition mdiv :: "mat \<Rightarrow> real \<Rightarrow> mat" where
  "mdiv A k = map (\<lambda>row. vdiv row k) A"

definition outer :: "vec \<Rightarrow> vec \<Rightarrow> mat" where
  "outer u v = map (\<lambda>a. map (\<lambda>b. a * b) v) u"

definition zeros :: "nat \<Rightarrow> nat \<Rightarrow> mat" where
  "zeros r c = replicate r (replicate c 0)"

definition col :: "mat \<Rightarrow> nat \<Rightarrow> vec" where
  "col A j = map (\<lambda>row. row ! j) A"

definition ncols :: "mat \<Rightarrow> nat" where
  "ncols A = (case A of [] \<Rightarrow> 0 | row # _ \<Rightarrow> length row)"

definition mT :: "mat \<Rightarrow> mat" where
  "mT A = map (col A) [0..<ncols A]"

definition matmul :: "mat \<Rightarrow> mat \<Rightarrow> mat" where
  "matmul A B = map (\<lambda>row. map (\<lambda>j. sum_list (vmul row (col B j))) [0..<ncols B]) A"

definition matvec :: "mat \<Rightarrow> vec \<Rightarrow> vec" where
  "matvec A v = map (\<lambda>row. sum_list (vmul row v)) A"

definition diagflat :: "vec \<Rightarrow> mat" where
  "diagflat d = map (\<lambda>i. map (\<lambda>j. if i = j then d ! i else 0) [0..<length d]) [0..<length d]"

definition eye :: "nat \<Rightarrow> mat" where
  "eye n = diagflat (replicate n 1)"

text \<open>
  \<open>np.reshape(Y, (-1, 1), order='F')\<close> of a matrix with \<open>D\<close> columns: the columns
  one after the other.
\<close>

definition reshapeF :: "nat \<Rightarrow> mat \<Rightarrow> vec" where
  "reshapeF D Y = concat (map (col Y) [0..<D])"

text \<open>\<open>np.linspace(0, 1, n)\<close>\<close>

definition linspace01 :: "nat \<Rightarrow> vec" where
  "linspace01 n = (if n = 1 then [0] else map (\<lambda>i. real i / real (n - 1)) [0..<n])"

text \<open>
  \<open>np.interp(x, xp, fp)\<close> for increasing \<open>xp\<close>: the value is clamped to the first
  and the last sample outside the range and linear between two neighbours inside. An
  empty \<open>xp\<close>, or an \<open>fp\<close> of another length, raises.
\<close>

fun interp1 :: "real \<Rightarrow> vec \<Rightarrow> vec \<Rightarrow> real" where
  "interp1 x (x0 # x1 # xs) (f0 # f1 # fs) =
     (if x \<le> x0 then f0
      else if x < x1 then f0 + (f1 - f0) / (x1 - x0) * (x - x0)
      else interp1 x (x1 # xs) (f1 # fs))"
| "interp1 x _ (f0 # _) = f0"
| "interp1 x _ [] = 0"

definition np_interp :: "vec \<Rightarrow> vec \<Rightarrow> vec \<Rightarrow> pyerr + vec" where
  "np_interp xs xp fp =
     (if xp = [] \<or> length fp \<noteq> length xp then Inl ValueError
      else Inr (map (\<lambda>x. interp1 x xp fp) xs))"

subsection \<open>The object and the conversion to physical units\<close>

text \<open>
  The fields of a \<open>GaussianProcess\<close>: the cluster data as the constructor's helpers
  normalised it, a trajectory being \<open>(x, Y)\<close>; the outline
  \<open>[min\<^sub>0, max\<^sub>0, min\<^sub>1, max\<^sub>1, \<dots>]\<close> of the original data;
  the number of Gaussians; the dimension.
\<close>

type_synonym trajectory = "vec \<times> mat"

record gp =
  gp_cluster_data :: "trajectory list"
  gp_outline :: vec
  gp_ngaus :: nat
  gp_ndim :: nat

text \<open>\<open>_outline2vectors\<close>: per dimension, \<open>ngaus\<close> copies of the minimum and of the range.\<close>

definition outline2vectors :: "gp \<Rightarrow> pyerr + (vec \<times> vec)" where
  "outline2vectors g =
     (case sequence_err (map (\<lambda>d.
             case nth_err (gp_outline g) (d * 2 + 0) of Inl e \<Rightarrow> Inl e | Inr xmin \<Rightarrow>
             case nth_err (gp_outline g) (d * 2 + 1) of Inl e \<Rightarrow> Inl e | Inr xmax \<Rightarrow>
             Inr (replicate (gp_ngaus g) xmin, replicate (gp_ngaus g) (xmax - xmin)))
           [0..<gp_ndim g]) of
        Inl e \<Rightarrow> Inl e
      | Inr MD \<Rightarrow> Inr (concat (map fst MD), concat (map snd MD)))"

text \<open>\<open>_norm2real\<close>\<close>

definition norm2real :: "gp \<Rightarrow> vec \<Rightarrow> mat \<Rightarrow> pyerr + (vec \<times> mat)" where
  "norm2real g mu_y sig_y =
     (case outline2vectors g of
        Inl e \<Rightarrow> Inl e
      | Inr (M, D) \<Rightarrow>
          (let D_diag = diagflat (map (\<lambda>d. d ^ 2) D);
               mu_y_real = vadd (vmul mu_y D) M;
               sig_y_real = matmul sig_y D_diag
           in Inr (mu_y_real, sig_y_real)))"

subsection \<open>Cells\<close>

text \<open>
  \<open>_getMuSigma\<close> and \<open>_getGMMCells\<close>, which \<open>GaussianProcess\<close> and \<open>Model\<close> both
  define with the same text. The helper \<open>nearest_spd\<close> is a parameter.
\<close>

definition getMuSigma :: "nat \<Rightarrow> vec \<Rightarrow> mat \<Rightarrow> int \<Rightarrow> int \<Rightarrow> pyerr + (vec \<times> mat)" where
  "getMuSigma D mu_y sig_y npoint ngaus =
     (if npoint < 0 \<or> npoint \<ge> ngaus then Inl ValueError
      else
        (let p = nat npoint; g = nat ngaus in
         case sequence_err (map (\<lambda>d_row. nth_err mu_y (p + d_row * g)) [0..<D]) of
           Inl e \<Rightarrow> Inl e
         | Inr c \<Rightarrow>
             (case sequence_err (map (\<lambda>d_row. sequence_err (map (\<lambda>d_col.
                       case nth_err sig_y (p + d_row * g) of
                         Inl e \<Rightarrow> Inl e
                       | Inr row \<Rightarrow> nth_err row (p + d_col * g)) [0..<D])) [0..<D]) of
                Inl e \<Rightarrow> Inl e
              | Inr A \<Rightarrow> Inr (c, A))))"

definition getGMMCells :: "(mat \<Rightarrow> mat) \<Rightarrow> nat \<Rightarrow> vec \<Rightarrow> mat \<Rightarrow> int \<Rightarrow> pyerr + (vec list \<times> mat list)" where
  "getGMMCells nearest_spd D mu_y sig_y ngaus =
     (case sequence_err (map (\<lambda>m.
             case getMuSigma D mu_y sig_y (int m) ngaus of
               Inl e \<Rightarrow> Inl e
             | Inr (c, A) \<Rightarrow> Inr (c, nearest_spd A)) [0..<nat ngaus]) of
        Inl e \<Rightarrow> Inl e
      | Inr cells \<Rightarrow> Inr (map fst cells, map snd cells))"

text \<open>
  The flattening convention in the specification's words: with \<open>n\<close> cells, flat index
  \<open>m + d * n\<close> holds entry \<open>d\<close> of cell \<open>m\<close>'s mean, and entry
  \<open>(m + d1 * n, m + d2 * n)\<close> of the joint covariance holds entry \<open>(d1, d2)\<close> of cell
  \<open>m\<close>'s covariance. The convention says nothing about the covariance between two
  different cells; \<open>cross\<close> supplies those entries.
\<close>

definition flatten_mu :: "nat \<Rightarrow> (vec \<times> mat) list \<Rightarrow> vec" where
  "flatten_mu D cells =
     map (\<lambda>i. fst (cells ! (i mod length cells)) ! (i div length cells))
       [0..<D * length cells]"

definition flatten_sigma :: "(nat \<Rightarrow> nat \<Rightarrow> real) \<Rightarrow> nat \<Rightarrow> (vec \<times> mat) list \<Rightarrow> mat" where
  "flatten_sigma cross D cells =
     map (\<lambda>i. map (\<lambda>j.
            if i mod length cells = j mod length cells
            then snd (cells ! (i mod length cells)) ! (i div length cells) ! (j div length cells)
            else cross i j) [0..<D * length cells]) [0..<D * length cells]"

subsection \<open>Resampling\<close>

text \<open>
  \<open>model_by_resampling\<close>, lines 78 to 118: every trajectory is resampled at the
  control points, dimension by dimension, and flattened; the mean and the covariance of
  the flattened vectors are accumulated in two loops and divided by the number of
  trajectories.
\<close>

definition resample :: "nat \<Rightarrow> nat \<Rightarrow> trajectory \<Rightarrow> pyerr + vec" where
  "resample ngaus mdim t =
     (case sequence_err (map (\<lambda>d. np_interp (linspace01 ngaus) (fst t) (col (snd t) d))
                           [0..<mdim]) of
        Inl e \<Rightarrow> Inl e
      | Inr yp \<Rightarrow> Inr (concat yp))"

definition resampling_stats :: "gp \<Rightarrow> pyerr + (vec \<times> mat)" where
  "resampling_stats g =
     (case sequence_err (map (resample (gp_ngaus g) (gp_ndim g)) (gp_cluster_data g)) of
        Inl e \<Rightarrow> Inl e
      | Inr yc \<Rightarrow>
          (let ntraj = length yc;
               n = gp_ndim g * gp_ngaus g;
               mu_y = vdiv (foldl vadd (replicate n 0) yc) (real ntraj);
               sig_y_sum = foldl (\<lambda>acc yn. madd acc (outer (vsub yn mu_y) (vsub yn mu_y)))
                             (zeros n n) yc;
               sig_y = mdiv sig_y_sum (real ntraj)
           in Inr (mu_y, sig_y)))"

definition model_by_resampling :: "(mat \<Rightarrow> mat) \<Rightarrow> gp \<Rightarrow> pyerr + (vec \<times> mat \<times> vec list \<times> mat list)" where
  "model_by_resampling nearest_spd g =
     (case resampling_stats g of Inl e \<Rightarrow> Inl e | Inr (mu_y, sig_y) \<Rightarrow>
      case norm2real g mu_y sig_y of Inl e \<Rightarrow> Inl e | Inr (mu_y', sig_y') \<Rightarrow>
      case getGMMCells nearest_spd (gp_ndim g) mu_y' sig_y' (int (gp_ngaus g)) of
        Inl e \<Rightarrow> Inl e
      | Inr (cc, cA) \<Rightarrow> Inr (mu_y', sig_y', cc, cA))"

text \<open>
  Population mean and population covariance in the specification's words: the sum over
  the vectors, entry by entry, divided by their number.
\<close>

definition pop_mean :: "nat \<Rightarrow> vec list \<Rightarrow> vec" where
  "pop_mean n ys = map (\<lambda>i. (\<Sum>y\<leftarrow>ys. y ! i) / real (length ys)) [0..<n]"

definition pop_cov :: "nat \<Rightarrow> vec list \<Rightarrow> mat" where
  "pop_cov n ys =
     map (\<lambda>i. map (\<lambda>j. (\<Sum>y\<leftarrow>ys. (y ! i - pop_mean n ys ! i) * (y ! j - pop_mean n ys ! j))
                        / real (length ys)) [0..<n]) [0..<n]"

text \<open>
  Symmetric positive-definite matrices of dimension \<open>D\<close>, for the statement of the
  round trip: the matrix is square, equals its transpose, and its quadratic form is
  positive at every vector but zero.
\<close>

definition quad_form :: "mat \<Rightarrow> vec \<Rightarrow> real" where
  "quad_form A x = sum_list (vmul x (matvec A x))"

definition spd :: "nat \<Rightarrow> mat \<Rightarrow> bool" where
  "spd D A = (length A = D \<and> list_all (\<lambda>row. length row = D) A \<and> mT A = A \<and>
              (\<forall>x. length x = D \<and> x \<noteq> replicate D 0 \<longrightarrow> 0 < quad_form A x))"

subsection \<open>Notions for the statements about resampling\<close>

text \<open>
  What \<open>resample\<close> yields for a trajectory it accepts: per dimension, the
  interpolated values at the control points, the dimensions one after the other.
\<close>

definition resampled :: "nat \<Rightarrow> nat \<Rightarrow> trajectory \<Rightarrow> vec" where
  "resampled ngaus mdim t =
     concat (map (\<lambda>d. map (\<lambda>x. interp1 x (fst t) (col (snd t) d)) (linspace01 ngaus)) [0..<mdim])"

text \<open>
  A trajectory as the constructor receives it: \<open>x\<close> is not empty and strictly
  increasing, and \<open>Y\<close> has one row of \<open>mdim\<close> entries per entry of \<open>x\<close>.
\<close>

definition wf_trajectory :: "nat \<Rightarrow> trajectory \<Rightarrow> bool" where
  "wf_trajectory mdim t =
     (fst t \<noteq> [] \<and> sorted_wrt (<) (fst t) \<and> length (snd t) = length (fst t) \<and>
      list_all (\<lambda>row. length row = mdim) (snd t))"



section \<open>Basis regression and construction\<close>

subsection \<open>Arithmetic on values that may be non-finite\<close>

text \<open>
  IEEE arithmetic on the special values; on finite values the exact real operation.
  A comparison with NaN is false.
\<close>

fun fadd :: "fval \<Rightarrow> fval \<Rightarrow> fval" where
  "fadd NaN _ = NaN"
| "fadd _ NaN = NaN"
| "fadd PInf NInf = NaN"
| "fadd NInf PInf = NaN"
| "fadd PInf _ = PInf"
| "fadd _ PInf = PInf"
| "fadd NInf _ = NInf"
| "fadd _ NInf = NInf"
| "fadd (Fin a) (Fin b) = Fin (a + b)"

fun fneg :: "fval \<Rightarrow> fval" where
  "fneg (Fin a) = Fin (- a)"
| "fneg PInf = NInf"
| "fneg NInf = PInf"
| "fneg NaN = NaN"

definition fsub :: "fval \<Rightarrow> fval \<Rightarrow> fval" where
  "fsub a b = fadd a (fneg b)"

fun fabs :: "fval \<Rightarrow> fval" where
  "fabs (Fin a) = Fin \<bar>a\<bar>"
| "fabs PInf = PInf"
| "fabs NInf = PInf"
| "fabs NaN = NaN"

fun flt :: "fval \<Rightarrow> fval \<Rightarrow> bool" where
  "flt (Fin a) (Fin b) = (a < b)"
| "flt NInf (Fin _) = True"
| "flt NInf PInf = True"
| "flt (Fin _) PInf = True"
| "flt _ _ = False"

subsection \<open>What the sources do not contain\<close>

text \<open>
  A Python value as a settings dictionary holds it.
\<close>

datatype pyval = PStr string | PInt int | PFloat real | PNone

text \<open>
  The helpers of \<open>teetool.helpers\<close>, the class \<open>teetool.basis.Basis\<close> and the
  functions of \<open>numpy.linalg\<close> are not part of the sources; the model takes them as
  parameters. \<open>h_Basis type nbasis ndim\<close> constructs a basis and yields its \<open>get\<close>.
\<close>

record helpers =
  h_getDimension :: "trajectory list \<Rightarrow> pyerr + nat"
  h_outline :: "trajectory list \<Rightarrow> pyerr + vec"
  h_norm :: "trajectory list \<Rightarrow> vec \<Rightarrow> pyerr + trajectory list"
  h_nearest_spd :: "mat \<Rightarrow> mat"
  h_Basis :: "pyval \<Rightarrow> pyval \<Rightarrow> nat \<Rightarrow> pyerr + (vec \<Rightarrow> mat)"
  h_pinv :: "mat \<Rightarrow> pyerr + mat"
  h_inv :: "mat \<Rightarrow> pyerr + mat"
  h_cond :: "mat \<Rightarrow> pyerr + fval"

text \<open>
  The numerical steps of one EM iteration (\<open>_Ewc_Ewwc\<close>, \<open>_E_mu\<close>, \<open>_E_sigma\<close>,
  \<open>_E_beta\<close>, \<open>_L_pYw\<close> and lines 506 to 519 of \<open>_L_pw\<close>) are floating-point
  linear algebra over the design matrices of the missing basis class. The loop depends
  on them through the values they return, which may be non-finite; exact real
  arithmetic would never produce such a value. They are parameters with the
  signatures of the source; \<open>_Ewc_Ewwc\<close> inverts a matrix and may raise.
\<close>

record em_numerics =
  n_Ewc_Ewwc :: "vec list \<Rightarrow> mat list \<Rightarrow> vec \<Rightarrow> mat \<Rightarrow> fval \<Rightarrow> pyerr + (vec list \<times> mat list)"
  n_E_mu :: "vec list \<Rightarrow> vec"
  n_E_sigma :: "vec \<Rightarrow> vec list \<Rightarrow> mat list \<Rightarrow> vec list \<Rightarrow> mat list \<Rightarrow> mat"
  n_E_beta :: "vec list \<Rightarrow> mat list \<Rightarrow> vec list \<Rightarrow> mat list \<Rightarrow> nat \<Rightarrow> nat \<Rightarrow> fval"
  n_L_pYw :: "vec list \<Rightarrow> mat list \<Rightarrow> vec list \<Rightarrow> mat list \<Rightarrow> nat \<Rightarrow> nat \<Rightarrow> fval \<Rightarrow> fval"
  n_det_prior :: "vec list \<Rightarrow> mat list \<Rightarrow> vec \<Rightarrow> mat \<Rightarrow> mat \<Rightarrow> nat \<Rightarrow> nat \<Rightarrow> fval"

subsection \<open>Expectation maximization\<close>

text \<open>
  \<open>_L_pw\<close>: the test \<open>cond(sig_w) > 0\<close> guards the sentinel \<open>1e4\<close>; the
  determinant-based term is what remains.
\<close>

definition L_pw :: "(mat \<Rightarrow> pyerr + fval) \<Rightarrow>
    (vec list \<Rightarrow> mat list \<Rightarrow> vec \<Rightarrow> mat \<Rightarrow> mat \<Rightarrow> nat \<Rightarrow> nat \<Rightarrow> fval) \<Rightarrow>
    vec list \<Rightarrow> mat list \<Rightarrow> vec \<Rightarrow> mat \<Rightarrow> mat \<Rightarrow> nat \<Rightarrow> nat \<Rightarrow> pyerr + fval" where
  "L_pw np_cond det_prior Ewc Ewwc mu_w sig_w sig_w_inv ndim nbasis =
     (case np_cond sig_w of
        Inl e \<Rightarrow> Inl e
      | Inr c \<Rightarrow>
          if flt (Fin 0) c then Inr (Fin 10000)
          else Inr (det_prior Ewc Ewwc mu_w sig_w sig_w_inv ndim nbasis))"

text \<open>
  The variables of the loop of \<open>model_by_em\<close>; \<open>st_iterations\<close> counts the
  iterations run.
\<close>

record em_state =
  st_mu_w :: vec
  st_sig_w :: mat
  st_sig_w_inv :: mat
  st_BETA_EM :: fval
  st_loglikelihood_previous :: fval
  st_iterations :: nat

text \<open>
  The body of the loop up to the convergence test (lines 228 to 265): the variables as
  the iteration leaves them and the log-likelihood \<open>loglikelihood_pY\<close> it computed.
\<close>

definition em_iteration :: "helpers \<Rightarrow> em_numerics \<Rightarrow> vec list \<Rightarrow> mat list \<Rightarrow> nat \<Rightarrow> nat \<Rightarrow> nat \<Rightarrow>
    em_state \<Rightarrow> pyerr + (em_state \<times> fval)" where
  "em_iteration H N yc Hc ndim Mstar nbasis st =
     (case n_Ewc_Ewwc N yc Hc (st_mu_w st) (st_sig_w_inv st) (st_BETA_EM st) of
        Inl e \<Rightarrow> Inl e
      | Inr (Ewc, Ewwc) \<Rightarrow>
          (let mu_w = n_E_mu N Ewc;
               sig_w = n_E_sigma N mu_w yc Hc Ewc Ewwc
           in case h_inv H sig_w of
                Inl e \<Rightarrow> Inl e
              | Inr sig_w_inv \<Rightarrow>
                  (let BETA_EM = n_E_beta N yc Hc Ewc Ewwc ndim Mstar;
                       loglikelihood_pYw = n_L_pYw N yc Hc Ewc Ewwc ndim Mstar BETA_EM
                   in case L_pw (h_cond H) (n_det_prior N) Ewc Ewwc mu_w sig_w sig_w_inv
                             ndim nbasis of
                        Inl e \<Rightarrow> Inl e
                      | Inr loglikelihood_pw \<Rightarrow>
                          Inr (st\<lparr>st_mu_w := mu_w, st_sig_w := sig_w,
                                  st_sig_w_inv := sig_w_inv, st_BETA_EM := BETA_EM,
                                  st_iterations := Suc (st_iterations st)\<rparr>,
                               fadd loglikelihood_pYw loglikelihood_pw))))"

text \<open>
  The loop \<open>for i_iter in range(MAX_ITERATIONS)\<close> with its two \<open>break\<close>s, by
  recursion on the iterations left; \<open>CONV_LIKELIHOOD\<close> is \<open>1e-3\<close>.
\<close>

fun em_loop :: "helpers \<Rightarrow> em_numerics \<Rightarrow> vec list \<Rightarrow> mat list \<Rightarrow> nat \<Rightarrow> nat \<Rightarrow> nat \<Rightarrow>
    nat \<Rightarrow> em_state \<Rightarrow> pyerr + em_state" where
  "em_loop H N yc Hc ndim Mstar nbasis 0 st = Inr st"
| "em_loop H N yc Hc ndim Mstar nbasis (Suc k) st =
     (case em_iteration H N yc Hc ndim Mstar nbasis st of
        Inl e \<Rightarrow> Inl e
      | Inr (st', loglikelihood_pY) \<Rightarrow>
          (let loglikelihood_diff =
                 fabs (fsub loglikelihood_pY (st_loglikelihood_previous st))
           in if isfinite loglikelihood_pY then
                (if flt loglikelihood_diff (Fin (1 / 1000)) then Inr st'
                 else em_loop H N yc Hc ndim Mstar nbasis k
                        (st'\<lparr>st_loglikelihood_previous := loglikelihood_pY\<rparr>))
              else Inr st'))"

text \<open>
  The end of \<open>model_by_ml\<close> and of \<open>model_by_em\<close>: the prediction at the control
  points, the conversion and the cells. \<open>ngaus\<close> is the setting as given; the object
  holds it as a count, and \<open>np.linspace\<close> rejects a negative one.
\<close>

definition predict :: "helpers \<Rightarrow> gp \<Rightarrow> int \<Rightarrow> (vec \<Rightarrow> mat) \<Rightarrow> vec \<Rightarrow> mat \<Rightarrow>
    pyerr + (vec \<times> mat \<times> vec list \<times> mat list)" where
  "predict H g ngaus basis_get mu_w sig_w =
     (if ngaus < 0 then Inl ValueError
      else
        (let Hp = basis_get (linspace01 (gp_ngaus g));
             mu_y = matvec Hp mu_w;
             sig_y = matmul (matmul Hp sig_w) (mT Hp)
         in case norm2real g mu_y sig_y of Inl e \<Rightarrow> Inl e | Inr (mu_y', sig_y') \<Rightarrow>
            case getGMMCells (h_nearest_spd H) (gp_ndim g) mu_y' sig_y' (int (gp_ngaus g)) of
              Inl e \<Rightarrow> Inl e
            | Inr (cc, cA) \<Rightarrow> Inr (mu_y', sig_y', cc, cA)))"

text \<open>
  \<open>model_by_em\<close>. The state starts at \<open>(0, identity, 1000)\<close> with the previous
  log-likelihood \<open>+\<infinity>\<close>; \<open>np.zeros\<close> needs an integer \<open>nbasis\<close>.
\<close>

definition model_by_em :: "helpers \<Rightarrow> em_numerics \<Rightarrow> gp \<Rightarrow> int \<Rightarrow> pyval \<Rightarrow> pyval \<Rightarrow> nat \<Rightarrow>
    pyerr + (vec \<times> mat \<times> vec list \<times> mat list)" where
  "model_by_em H N g ngaus type_basis nbasis maximum_iterations =
     (let cluster_data = gp_cluster_data g;
          ndim = gp_ndim g;
          Mstar = sum_list (map (\<lambda>t. length (fst t)) cluster_data)
      in case h_Basis H type_basis nbasis ndim of Inl e \<Rightarrow> Inl e | Inr basis_get \<Rightarrow>
         (let yc = map (\<lambda>t. reshapeF ndim (snd t)) cluster_data;
              Hc = map (\<lambda>t. basis_get (fst t)) cluster_data
          in case nbasis of
               PInt nb \<Rightarrow>
                 if nb < 0 then Inl ValueError
                 else
                   (let sig_w = eye (nat nb * ndim) in
                    case h_inv H sig_w of Inl e \<Rightarrow> Inl e | Inr sig_w_inv \<Rightarrow>
                    case em_loop H N yc Hc ndim Mstar (nat nb) maximum_iterations
                           \<lparr>st_mu_w = replicate (nat nb * ndim) 0, st_sig_w = sig_w,
                            st_sig_w_inv = sig_w_inv, st_BETA_EM = Fin 1000,
                            st_loglikelihood_previous = PInf, st_iterations = 0\<rparr> of
                      Inl e \<Rightarrow> Inl e
                    | Inr st \<Rightarrow> predict H g ngaus basis_get (st_mu_w st) (st_sig_w st))
             | _ \<Rightarrow> Inl TypeError))"

subsection \<open>Maximum likelihood\<close>

definition model_by_ml :: "helpers \<Rightarrow> gp \<Rightarrow> int \<Rightarrow> pyval \<Rightarrow> pyval \<Rightarrow>
    pyerr + (vec \<times> mat \<times> vec list \<times> mat list)" where
  "model_by_ml H g ngaus type_basis nbasis =
     (let cluster_data = gp_cluster_data g;
          ndim = gp_ndim g;
          ntraj = length cluster_data
      in case h_Basis H type_basis nbasis ndim of Inl e \<Rightarrow> Inl e | Inr basis_get \<Rightarrow>
         case sequence_err (map (\<lambda>t.
                case h_pinv H (basis_get (fst t)) of
                  Inl e \<Rightarrow> Inl e
                | Inr P \<Rightarrow> Inr (matvec P (reshapeF ndim (snd t)))) cluster_data) of
           Inl e \<Rightarrow> Inl e
         | Inr wc \<Rightarrow>
             (case nbasis of
                PInt nb \<Rightarrow>
                  if nb < 0 then Inl ValueError
                  else
                    (let n = ndim * nat nb;
                         mu_w = vdiv (foldl vadd (replicate n 0) wc) (real ntraj);
                         sig_w_sum = foldl (\<lambda>acc wn. madd acc (outer (vsub wn mu_w) (vsub wn mu_w)))
                                       (zeros n n) wc;
                         sig_w = mdiv sig_w_sum (real ntraj)
                     in predict H g ngaus basis_get mu_w sig_w)
              | _ \<Rightarrow> Inl TypeError))"

subsection \<open>Construction of a model\<close>

text \<open>
  \<open>GaussianProcess.__init__\<close>: the outline, the normalised data and the dimension come
  from the helpers.
\<close>

definition GaussianProcess_init :: "helpers \<Rightarrow> trajectory list \<Rightarrow> int \<Rightarrow> pyerr + gp" where
  "GaussianProcess_init H cluster_data ngaus =
     (case h_outline H cluster_data of Inl e \<Rightarrow> Inl e | Inr ol \<Rightarrow>
      case h_norm H cluster_data ol of Inl e \<Rightarrow> Inl e | Inr cluster_data_norm \<Rightarrow>
      case h_getDimension H cluster_data of Inl e \<Rightarrow> Inl e | Inr nd \<Rightarrow>
      Inr \<lparr>gp_cluster_data = cluster_data_norm, gp_outline = ol,
           gp_ngaus = nat ngaus, gp_ndim = nd\<rparr>)"

text \<open>
  \<open>_normalise_data\<close> with \<open>_getMinMax\<close> and \<open>_getNorm\<close>: every \<open>x\<close> is mapped by
  \<open>(x - xmin) / (xmax - xmin)\<close> with the least and the greatest parameter of the
  ensemble; \<open>min\<close> of an empty \<open>x\<close> raises. (For \<open>xmax = xmin\<close> NumPy yields NaN
  or an infinity with a warning where the quotient here is zero; no statement below
  reads these values.)
\<close>

definition normalise_data :: "trajectory list \<Rightarrow> pyerr + trajectory list" where
  "normalise_data cluster_data =
     (if list_ex (\<lambda>t. fst t = []) cluster_data then Inl ValueError
      else
        (let xs = concat (map fst cluster_data);
             xmin = foldl min (hd xs) xs;
             xmax = foldl max (hd xs) xs
         in Inr (map (\<lambda>t. (map (\<lambda>v. (v - xmin) / (xmax - xmin)) (fst t), snd t)) cluster_data)))"

text \<open>
  What an estimator returns is a Python tuple of four objects; the statement
  \<open>(mu_y, sig_y) = \<dots>\<close> unpacks a tuple of exactly two and raises a
  \<open>ValueError\<close> for any other length.
\<close>

datatype pyobj = OVec vec | OMat mat | OVecs "vec list" | OMats "mat list"

definition tuple4 :: "vec \<times> mat \<times> vec list \<times> mat list \<Rightarrow> pyobj list" where
  "tuple4 r = (case r of (mu_y, sig_y, cc, cA) \<Rightarrow> [OVec mu_y, OMat sig_y, OVecs cc, OMats cA])"

definition unpack2 :: "pyobj list \<Rightarrow> pyerr + (pyobj \<times> pyobj)" where
  "unpack2 t = (case t of [a, b] \<Rightarrow> Inr (a, b) | _ \<Rightarrow> Inl ValueError)"

text \<open>The comparison \<open>settings["nbasis"] < 2\<close> of Python 3.\<close>

definition less_than_two :: "pyval \<Rightarrow> pyerr + bool" where
  "less_than_two v =
     (case v of PInt n \<Rightarrow> Inr (n < 2) | PFloat r \<Rightarrow> Inr (r < 2) | _ \<Rightarrow> Inl TypeError)"

text \<open>
  \<open>Model.__init__\<close>: the checks of the settings in the order of the source, the
  normalisation, the Gaussian process, the estimator chosen by \<open>model_type\<close>, the
  unpacking of its result, the cells and the empty caches. \<open>model_by_em\<close> is called
  without a third argument and runs with its default of 2001 iterations.
\<close>

definition check_settings :: "(string \<rightharpoonup> pyval) \<Rightarrow> pyerr + (string \<times> int)" where
  "check_settings settings =
     (case settings ''model_type'' of
        None \<Rightarrow> Inl ValueError
      | Some (PStr model_type) \<Rightarrow>
          (case settings ''ngaus'' of
             None \<Rightarrow> Inl ValueError
           | Some (PInt ngaus) \<Rightarrow>
               if model_type = ''ML'' \<or> model_type = ''EM'' then
                 (case settings ''basis_type'' of
                    None \<Rightarrow> Inl ValueError
                  | Some _ \<Rightarrow>
                      (case settings ''nbasis'' of
                         None \<Rightarrow> Inl ValueError
                       | Some nbasis \<Rightarrow>
                           (case less_than_two nbasis of
                              Inl e \<Rightarrow> Inl e
                            | Inr True \<Rightarrow> Inl ValueError
                            | Inr False \<Rightarrow> Inr (model_type, ngaus))))
               else Inr (model_type, ngaus)
           | Some _ \<Rightarrow> Inl TypeError)
      | Some _ \<Rightarrow> Inl TypeError)"

definition getitem :: "(string \<rightharpoonup> pyval) \<Rightarrow> string \<Rightarrow> pyerr + pyval" where
  "getitem settings key = (case settings key of None \<Rightarrow> Inl KeyError | Some v \<Rightarrow> Inr v)"

definition run_estimator :: "helpers \<Rightarrow> em_numerics \<Rightarrow> (string \<rightharpoonup> pyval) \<Rightarrow> string \<Rightarrow> int \<Rightarrow> gp \<Rightarrow>
    pyerr + pyobj list" where
  "run_estimator H N settings model_type ngaus g =
     (if model_type = ''resampling'' then
        (if ngaus < 0 then Inl ValueError
         else map_sum id tuple4 (model_by_resampling (h_nearest_spd H) g))
      else if model_type = ''ML'' then
        (case getitem settings ''basis_type'' of Inl e \<Rightarrow> Inl e | Inr basis_type \<Rightarrow>
         case getitem settings ''nbasis'' of Inl e \<Rightarrow> Inl e | Inr nbasis \<Rightarrow>
         map_sum id tuple4 (model_by_ml H g ngaus basis_type nbasis))
      else if model_type = ''EM'' then
        (case getitem settings ''basis_type'' of Inl e \<Rightarrow> Inl e | Inr basis_type \<Rightarrow>
         case getitem settings ''nbasis'' of Inl e \<Rightarrow> Inl e | Inr nbasis \<Rightarrow>
         map_sum id tuple4 (model_by_em H N g ngaus basis_type nbasis 2001))
      else Inl NotImplementedError)"

definition Model_init :: "helpers \<Rightarrow> em_numerics \<Rightarrow> trajectory list \<Rightarrow> (string \<rightharpoonup> pyval) \<Rightarrow>
    pyerr + model" where
  "Model_init H N cluster_data settings =
     (case check_settings settings of Inl e \<Rightarrow> Inl e | Inr (model_type, ngaus) \<Rightarrow>
      case h_getDimension H cluster_data of Inl e \<Rightarrow> Inl e | Inr nd \<Rightarrow>
      case normalise_data cluster_data of Inl e \<Rightarrow> Inl e | Inr norm_cluster_data \<Rightarrow>
      case GaussianProcess_init H norm_cluster_data ngaus of Inl e \<Rightarrow> Inl e | Inr g \<Rightarrow>
      case run_estimator H N settings model_type ngaus g of Inl e \<Rightarrow> Inl e | Inr result \<Rightarrow>
      case unpack2 result of
        Inl e \<Rightarrow> Inl e
      | Inr (OVec mu_y, OMat sig_y) \<Rightarrow>
          (case getGMMCells (h_nearest_spd H) nd mu_y sig_y ngaus of
             Inl e \<Rightarrow> Inl e
           | Inr (cc, cA) \<Rightarrow>
               Inr \<lparr>m_ndim = nd, m_mu_y = mu_y, m_sig_y = sig_y, m_cc = cc, m_cA = cA,
                    list_tube = [], list_logp = []\<rparr>)
      | Inr _ \<Rightarrow> Inl TypeError)"

section \<open>Properties\<close>

subsection \<open>Containment test\<close>







subsection \<open>Grid queries\<close>

lemmas grid_defs = evalLogLikelihood_def logp_grid_def grid2points_def np_size_def np_size_opt_def
  item_at_def item_def points2grid_def eval_logp_def squeeze_def replace_nan_def np_nanmin_def
  same_grid_def and_then_def np_all_eq_def np_all_eq_opt_def broadcast_shape_def bitem_def
  enumerate_eq_zip upt_rec

lemma fmin_cases:
  "\<not> isnan a \<Longrightarrow> \<not> isnan b \<Longrightarrow> (fmin a b = a \<or> fmin a b = b) \<and> \<not> isnan (fmin a b)"
  by (cases a; cases b) (auto simp: min_def)

lemma fmin_idem: "fmin a a = a"
  by (cases a) auto

lemma fmin_below_both:
  "\<not> isnan w \<Longrightarrow> \<not> isnan x \<Longrightarrow> \<not> isnan r \<Longrightarrow> fmin r (fmin w x) = r \<Longrightarrow>
     fmin r w = r \<and> fmin r x = r"
  by (cases r; cases w; cases x) (auto simp: min_def split: if_splits)

lemma foldl_fmin:
  "\<forall>v \<in> set (w # ws). \<not> isnan v \<Longrightarrow>
     \<not> isnan (foldl fmin w ws) \<and> foldl fmin w ws \<in> set (w # ws) \<and>
     (\<forall>v \<in> set (w # ws). fmin (foldl fmin w ws) v = foldl fmin w ws)"
proof (induction ws arbitrary: w)
  case Nil
  then show ?case by (simp add: fmin_idem)
next
  case (Cons x xs)
  let ?r = "foldl fmin (fmin w x) xs"
  from Cons.prems have nn: "\<not> isnan w" "\<not> isnan x" "\<forall>v \<in> set xs. \<not> isnan v"
    by auto
  then have f: "(fmin w x = w \<or> fmin w x = x) \<and> \<not> isnan (fmin w x)"
    using fmin_cases by blast
  then have "\<forall>v \<in> set (fmin w x # xs). \<not> isnan v"
    using nn by auto
  from Cons.IH [OF this] have ih: "\<not> isnan ?r" "?r \<in> set (fmin w x # xs)"
    "\<forall>v \<in> set (fmin w x # xs). fmin ?r v = ?r"
    by auto
  from ih(3) have "fmin ?r (fmin w x) = ?r" by simp
  with nn ih(1) have "fmin ?r w = ?r \<and> fmin ?r x = ?r"
    using fmin_below_both by blast
  with ih f show ?case by auto
qed

lemma np_nanmin_min:
  assumes "np_nanmin vs = Inr mn" and "list_ex (\<lambda>v. \<not> isnan v) vs"
  shows "\<not> isnan mn \<and> mn \<in> set vs \<and> (\<forall>v \<in> set vs. \<not> isnan v \<longrightarrow> fmin mn v = mn)"
proof -
  from assms(2) obtain w ws where f: "filter (\<lambda>v. \<not> isnan v) vs = w # ws"
    by (cases "filter (\<lambda>v. \<not> isnan v) vs") (auto simp: list_ex_iff filter_empty_conv)
  with assms(1) have mn: "mn = foldl fmin w ws"
    by (auto simp: np_nanmin_def split: if_splits)
  have "\<forall>v \<in> set (w # ws). \<not> isnan v"
  proof
    fix v assume "v \<in> set (w # ws)"
    then have "v \<in> set (filter (\<lambda>v. \<not> isnan v) vs)" using f by simp
    then show "\<not> isnan v" by simp
  qed
  from foldl_fmin [OF this] have r: "\<not> isnan mn" "mn \<in> set (w # ws)"
    "\<forall>v \<in> set (w # ws). fmin mn v = mn"
    using mn by auto
  have s: "set (w # ws) = {v \<in> set vs. \<not> isnan v}"
  proof -
    have "set (w # ws) = set (filter (\<lambda>v. \<not> isnan v) vs)" using f by simp
    then show ?thesis by simp
  qed
  from r s show ?thesis by auto
qed

text \<open>
  C5, as the code has it. On a cache miss the grid returned is the computed grid with
  every NaN, and only the NaNs, replaced by \<open>np.nanmin\<close> of that grid: the least of
  the values that are not NaN, which may be infinite. When some value is not NaN the
  returned grid holds no NaN; infinite values stay where they are.
\<close>

theorem evalLogLikelihood_replaces_nan:
  assumes "evalLogLikelihood mm logLc m xx yy zz = Inr (ss, m')"
    and "cached_logp mm (list_logp m) xx yy zz None = Inr None"
  shows "\<exists>ss0 mn. logp_grid logLc (m_ndim m) xx yy zz = Inr ss0 \<and>
           np_nanmin (elems ss0) = Inr mn \<and>
           shape ss = shape ss0 \<and>
           elems ss = map (\<lambda>v. if isnan v then mn else v) (elems ss0) \<and>
           (list_ex (\<lambda>v. \<not> isnan v) (elems ss0) \<longrightarrow>
              \<not> isnan mn \<and> mn \<in> set (elems ss0) \<and>
              (\<forall>v \<in> set (elems ss0). \<not> isnan v \<longrightarrow> fmin mn v = mn) \<and>
              list_all (\<lambda>v. \<not> isnan v) (elems ss))"
proof -
  from assms obtain ss0 where g: "logp_grid logLc (m_ndim m) xx yy zz = Inr ss0"
    and r: "replace_nan ss0 = Inr ss"
    by (auto simp: evalLogLikelihood_def split: if_splits sum.splits)
  from r obtain mn where mn: "np_nanmin (elems ss0) = Inr mn"
    and ss: "ss = ss0\<lparr>elems := map (\<lambda>v. if isnan v then mn else v) (elems ss0)\<rparr>"
    by (auto simp: replace_nan_def split: sum.splits)
  have "list_ex (\<lambda>v. \<not> isnan v) (elems ss0) \<longrightarrow>
          \<not> isnan mn \<and> mn \<in> set (elems ss0) \<and>
          (\<forall>v \<in> set (elems ss0). \<not> isnan v \<longrightarrow> fmin mn v = mn) \<and>
          list_all (\<lambda>v. \<not> isnan v) (elems ss)"
  proof
    assume ex: "list_ex (\<lambda>v. \<not> isnan v) (elems ss0)"
    from np_nanmin_min [OF mn ex] have p: "\<not> isnan mn" "mn \<in> set (elems ss0)"
      "\<forall>v \<in> set (elems ss0). \<not> isnan v \<longrightarrow> fmin mn v = mn"
      by auto
    have "list_all (\<lambda>v. \<not> isnan v) (elems ss)"
      using p(1) by (auto simp: ss list_all_iff)
    with p show "\<not> isnan mn \<and> mn \<in> set (elems ss0) \<and>
          (\<forall>v \<in> set (elems ss0). \<not> isnan v \<longrightarrow> fmin mn v = mn) \<and>
          list_all (\<lambda>v. \<not> isnan v) (elems ss)"
      by simp
  qed
  with g mn ss show ?thesis by simp
qed

theorem evalLogLikelihood_replaces_nan_witness:
  "\<exists>ss0 mn. logp_grid (\<lambda>p. if p = [0, 5] then NaN else Fin 1) 2
       \<lparr>shape = [2, 1], elems = [0, 1]\<rparr> \<lparr>shape = [2, 1], elems = [5, 5]\<rparr> None = Inr ss0 \<and>
     np_nanmin (elems ss0) = Inr mn \<and> elems ss0 = [NaN, Fin 1] \<and> mn = Fin 1 \<and>
     elems \<lparr>shape = [2, 1], elems = [Fin 1, Fin 1]\<rparr> = map (\<lambda>v. if isnan v then mn else v) (elems ss0)"
  using evalLogLikelihood_replaces_nan [of "Inr False" "\<lambda>p. if p = [0, 5] then NaN else Fin 1"
     "\<lparr>m_ndim = 2, m_mu_y = [], m_sig_y = [], m_cc = [], m_cA = [], list_tube = [], list_logp = []\<rparr>"
     "\<lparr>shape = [2, 1], elems = [0, 1]\<rparr>" "\<lparr>shape = [2, 1], elems = [5, 5]\<rparr>" None
     "\<lparr>shape = [2, 1], elems = [Fin 1, Fin 1]\<rparr>"]
  by (simp add: grid_defs)

text \<open>
  C5, as the claim states it, fails: a grid with the values \<open>-\<infinity>\<close> and \<open>1\<close> is
  returned as it was computed, although it has a finite value.
\<close>

theorem evalLogLikelihood_keeps_infinity:
  "\<exists>ss m'. evalLogLikelihood (Inr False) (\<lambda>p. if p = [0, 5] then NInf else Fin 1)
       \<lparr>m_ndim = 2, m_mu_y = [], m_sig_y = [], m_cc = [], m_cA = [], list_tube = [], list_logp = []\<rparr>
       \<lparr>shape = [2, 1], elems = [0, 1]\<rparr> \<lparr>shape = [2, 1], elems = [5, 5]\<rparr> None = Inr (ss, m') \<and>
     elems ss = [NInf, Fin 1] \<and> list_ex isfinite (elems ss) \<and> \<not> list_all isfinite (elems ss)"
  by (simp add: grid_defs)

text \<open>
  C7 at a failing input: in three dimensions, \<open>xx\<close> and \<open>yy\<close> of shape \<open>(1, 1, 1)\<close>
  with a \<open>zz\<close> of shape \<open>(1, 1, 2)\<close> are not rejected. \<open>evalLogLikelihood\<close> evaluates
  the grid, whatever the density helper; so does \<open>isInside_grid\<close>, shown for a model
  of three cells with stand-ins for the geometry helpers.
\<close>

theorem grid_queries_accept_mismatched_zz:
  "(\<exists>ss m'. evalLogLikelihood mm logLc (m\<lparr>m_ndim := 3, list_logp := []\<rparr>)
        \<lparr>shape = [1, 1, 1], elems = [0]\<rparr> \<lparr>shape = [1, 1, 1], elems = [0]\<rparr>
        (Some \<lparr>shape = [1, 1, 2], elems = [0, 1]\<rparr>) = Inr (ss, m') \<and> shape ss = [1, 1, 2]) \<and>
   (\<exists>ss m'. isInside_grid mm (\<lambda>P Y. map (\<lambda>p. hd p = 0) P) (\<lambda>c A sd n. [c]) (\<lambda>Y. Y)
        \<lparr>m_ndim = 3, m_mu_y = [], m_sig_y = [], m_cc = [[0, 0, 0], [1, 1, 1], [2, 2, 2]],
         m_cA = [eye 3, eye 3, eye 3], list_tube = [], list_logp = []\<rparr> 1
        \<lparr>shape = [1, 1, 1], elems = [0]\<rparr> \<lparr>shape = [1, 1, 1], elems = [0]\<rparr>
        (Some \<lparr>shape = [1, 1, 2], elems = [0, 1]\<rparr>) = Inr (ss, m') \<and> shape ss = [1, 1, 2])"
  by (simp add: isInside_grid_def isInside_pnts_def get_point_cloud_def np_array_rows_def
       transpose_nd_def np_any_axis1_def grid_defs)

text \<open>
  C10 at a failing input: after a call with the 2-by-1 grid
  \<open>np.mgrid[0:1:2j, 5:5:1j]\<close>, a call with the 2-by-2 grid
  \<open>np.mgrid[0:1:2j, 5:5:2j]\<close> finds the first entry equal under broadcasting, returns
  the first call's 2-by-1 result and appends nothing.
\<close>

theorem evalLogLikelihood_reuses_broadcast_entry:
  "\<exists>ssA mA. evalLogLikelihood mm logLc (m\<lparr>m_ndim := 2, list_logp := []\<rparr>)
        \<lparr>shape = [2, 1], elems = [0, 1]\<rparr> \<lparr>shape = [2, 1], elems = [5, 5]\<rparr> None = Inr (ssA, mA) \<and>
      shape ssA = [2, 1] \<and>
      evalLogLikelihood mm logLc mA
        \<lparr>shape = [2, 2], elems = [0, 0, 1, 1]\<rparr> \<lparr>shape = [2, 2], elems = [5, 5, 5, 5]\<rparr> None
        = Inr (ssA, mA)"
  by (simp add: grid_defs)

subsection \<open>Cell decomposition\<close>

lemma sequence_err_Inr:
  "(\<And>x. x \<in> set xs \<Longrightarrow> g x = Inr (f x)) \<Longrightarrow> sequence_err (map g xs) = Inr (map f xs)"
  by (induction xs) auto

lemma flat_index:
  assumes "(m::nat) < n" and "(d::nat) < D"
  shows "m + d * n < D * n" and "(m + d * n) mod n = m" and "(m + d * n) div n = d"
proof -
  have "m + d * n < n + d * n" using assms(1) by simp
  also have "\<dots> = Suc d * n" by simp
  also have "\<dots> \<le> D * n" using assms by (intro mult_le_mono1) simp
  finally show "m + d * n < D * n" .
  show "(m + d * n) mod n = m" using assms by simp
  show "(m + d * n) div n = d" using assms by simp
qed

lemma getMuSigma_flatten:
  assumes m: "m < length cells"
    and c: "length (fst (cells ! m)) = D"
    and A: "length (snd (cells ! m)) = D" "\<forall>row \<in> set (snd (cells ! m)). length row = D"
  shows "getMuSigma D (flatten_mu D cells) (flatten_sigma cross D cells) (int m) (int (length cells))
           = Inr (cells ! m)"
proof -
  let ?n = "length cells"
  have mu: "nth_err (flatten_mu D cells) (m + d * ?n) = Inr (fst (cells ! m) ! d)" if "d < D" for d
    using flat_index [OF m that] by (simp add: nth_err_def flatten_mu_def)
  have sg: "(case nth_err (flatten_sigma cross D cells) (m + d1 * ?n) of
               Inl e \<Rightarrow> Inl e | Inr row \<Rightarrow> nth_err row (m + d2 * ?n))
            = Inr (snd (cells ! m) ! d1 ! d2)" if "d1 < D" "d2 < D" for d1 d2
    using flat_index [OF m that(1)] flat_index [OF m that(2)]
    by (simp add: nth_err_def flatten_sigma_def)
  have 1: "sequence_err (map (\<lambda>d_row. nth_err (flatten_mu D cells) (m + d_row * ?n)) [0..<D])
             = Inr (map (\<lambda>d. fst (cells ! m) ! d) [0..<D])"
    by (rule sequence_err_Inr) (simp add: mu)
  have 2: "sequence_err (map (\<lambda>d_col.
              case nth_err (flatten_sigma cross D cells) (m + d_row * ?n) of
                Inl e \<Rightarrow> Inl e | Inr row \<Rightarrow> nth_err row (m + d_col * ?n)) [0..<D])
            = Inr (map (\<lambda>d2. snd (cells ! m) ! d_row ! d2) [0..<D])" if "d_row < D" for d_row
    by (rule sequence_err_Inr) (simp add: sg that)
  have 3: "sequence_err (map (\<lambda>d_row. sequence_err (map (\<lambda>d_col.
              case nth_err (flatten_sigma cross D cells) (m + d_row * ?n) of
                Inl e \<Rightarrow> Inl e | Inr row \<Rightarrow> nth_err row (m + d_col * ?n)) [0..<D])) [0..<D])
            = Inr (map (\<lambda>d1. map (\<lambda>d2. snd (cells ! m) ! d1 ! d2) [0..<D]) [0..<D])"
    by (rule sequence_err_Inr) (simp add: 2)
  have c': "map (\<lambda>d. fst (cells ! m) ! d) [0..<D] = fst (cells ! m)"
    using c by (metis map_nth)
  have rows: "map (\<lambda>d2. snd (cells ! m) ! d1 ! d2) [0..<D] = snd (cells ! m) ! d1" if "d1 < D" for d1
  proof -
    have "length (snd (cells ! m) ! d1) = D" using A that by simp
    then show ?thesis by (metis map_nth)
  qed
  have "map (\<lambda>d1. map (\<lambda>d2. snd (cells ! m) ! d1 ! d2) [0..<D]) [0..<D]
          = map (\<lambda>d1. snd (cells ! m) ! d1) [0..<D]"
    by (rule map_cong) (simp_all add: rows)
  also have "\<dots> = snd (cells ! m)" using A(1) by (metis map_nth)
  finally have A': "map (\<lambda>d1. map (\<lambda>d2. snd (cells ! m) ! d1 ! d2) [0..<D]) [0..<D] = snd (cells ! m)" .
  show ?thesis
    using m by (simp add: getMuSigma_def 1 3 c' A')
qed

text \<open>
  C8. Flattening \<open>n\<close> cells by the convention and decomposing the result yields the
  cells again, for cells whose means have \<open>D\<close> entries and whose covariances are
  symmetric positive definite, and for every repair \<open>nearest_spd\<close> that leaves a
  symmetric positive-definite matrix as it is; the entries of the joint covariance
  between different cells do not matter. A cell index below zero or not below
  \<open>ngaus\<close> is rejected with a \<open>ValueError\<close>.
\<close>

theorem getGMMCells_roundtrip:
  assumes cells: "\<forall>(c, A) \<in> set cells. length c = D \<and> spd D A"
    and repair: "\<forall>A. spd D A \<longrightarrow> nearest_spd A = A"
  shows "getGMMCells nearest_spd D (flatten_mu D cells) (flatten_sigma cross D cells)
           (int (length cells)) = Inr (map fst cells, map snd cells) \<and>
         (\<forall>mu sig npoint ngaus. npoint < 0 \<or> ngaus \<le> npoint \<longrightarrow>
            getMuSigma D mu sig npoint ngaus = Inl ValueError)"
proof
  have cell: "(case getMuSigma D (flatten_mu D cells) (flatten_sigma cross D cells) (int m)
                  (int (length cells)) of
                Inl e \<Rightarrow> Inl e | Inr (c, A) \<Rightarrow> Inr (c, nearest_spd A)) = Inr (cells ! m)"
    if "m \<in> set [0..<length cells]" for m
  proof -
    from that have m: "m < length cells" by simp
    then have "cells ! m \<in> set cells" by simp
    with cells have w: "length (fst (cells ! m)) = D" "spd D (snd (cells ! m))"
      by (auto simp: case_prod_beta)
    then have "length (snd (cells ! m)) = D" "\<forall>row \<in> set (snd (cells ! m)). length row = D"
      by (auto simp: spd_def list_all_iff)
    from getMuSigma_flatten [OF m w(1) this]
    have "getMuSigma D (flatten_mu D cells) (flatten_sigma cross D cells) (int m)
            (int (length cells)) = Inr (cells ! m)" .
    moreover have "nearest_spd (snd (cells ! m)) = snd (cells ! m)"
      using repair w(2) by simp
    ultimately show ?thesis
      by (simp add: case_prod_beta)
  qed
  have "sequence_err (map (\<lambda>m.
          case getMuSigma D (flatten_mu D cells) (flatten_sigma cross D cells) (int m)
                 (int (length cells)) of
            Inl e \<Rightarrow> Inl e | Inr (c, A) \<Rightarrow> Inr (c, nearest_spd A)) [0..<length cells])
        = Inr (map (\<lambda>m. cells ! m) [0..<length cells])"
    by (rule sequence_err_Inr) (rule cell)
  then show "getGMMCells nearest_spd D (flatten_mu D cells) (flatten_sigma cross D cells)
           (int (length cells)) = Inr (map fst cells, map snd cells)"
    by (simp add: getGMMCells_def map_nth)
  show "\<forall>mu sig npoint ngaus. npoint < 0 \<or> ngaus \<le> npoint \<longrightarrow>
            getMuSigma D mu sig npoint ngaus = Inl ValueError"
    by (simp add: getMuSigma_def)
qed

lemma spd_eye2: "spd 2 [[1, 0], [0, 1]]"
proof -
  have "0 < quad_form [[1, 0], [0, 1]] x" if "length x = 2" "x \<noteq> replicate 2 0" for x
  proof -
    from that(1) obtain a b where x: "x = [a, b]"
      by (cases x; cases "tl x") auto
    with that(2) have "a \<noteq> 0 \<or> b \<noteq> 0"
      by (auto simp: numeral_2_eq_2)
    then have "0 < a * a + b * b"
      by (simp add: sum_squares_gt_zero_iff)
    then show ?thesis
      by (simp add: x quad_form_def vmul_def matvec_def)
  qed
  then show ?thesis
    by (simp add: spd_def mT_def ncols_def col_def upt_rec)
qed

theorem getGMMCells_roundtrip_witness:
  "getGMMCells (\<lambda>A. A) 2 (flatten_mu 2 [([0, 0], [[1, 0], [0, 1]]), ([3, 4], [[1, 0], [0, 1]])])
      (flatten_sigma (\<lambda>i j. 7) 2 [([0, 0], [[1, 0], [0, 1]]), ([3, 4], [[1, 0], [0, 1]])]) 2
     = Inr ([[0, 0], [3, 4]], [[[1, 0], [0, 1]], [[1, 0], [0, 1]]]) \<and>
   getMuSigma 2 [0, 3, 0, 4] [] 2 2 = Inl ValueError"
  using getGMMCells_roundtrip [of "[([0, 0], [[1, 0], [0, 1]]), ([3, 4], [[1, 0], [0, 1]])]" 2 "\<lambda>A. A" "\<lambda>i j. 7"]
    spd_eye2
  by simp

subsection \<open>Resampling and the conversion to physical units\<close>

lemma length_linspace01: "length (linspace01 n) = n"
  by (simp add: linspace01_def)

lemma length_concat_upt:
  "(\<And>d. d < k \<Longrightarrow> length (f d) = c) \<Longrightarrow> length (concat (map f [0..<k])) = k * c"
  by (induction k) simp_all

lemma resample_ok:
  assumes "wf_trajectory mdim t"
  shows "resample ngaus mdim t = Inr (resampled ngaus mdim t)"
proof -
  have "sequence_err (map (\<lambda>d. np_interp (linspace01 ngaus) (fst t) (col (snd t) d)) [0..<mdim])
          = Inr (map (\<lambda>d. map (\<lambda>x. interp1 x (fst t) (col (snd t) d)) (linspace01 ngaus)) [0..<mdim])"
    using assms by (intro sequence_err_Inr) (simp add: np_interp_def wf_trajectory_def col_def)
  then show ?thesis
    by (simp add: resample_def resampled_def)
qed

lemma length_resampled: "length (resampled ngaus mdim t) = mdim * ngaus"
  unfolding resampled_def by (rule length_concat_upt) (simp add: length_linspace01)

lemma foldl_vadd:
  assumes "length acc = n" and "\<forall>y \<in> set ys. length y = n"
  shows "foldl vadd acc ys = map (\<lambda>i. acc ! i + (\<Sum>y\<leftarrow>ys. y ! i)) [0..<n]"
  using assms
proof (induction ys arbitrary: acc)
  case Nil
  then have n: "n = length acc" by simp
  show ?case unfolding n by (simp add: map_nth)
next
  case (Cons y ys)
  have l: "length (vadd acc y) = n"
    using Cons.prems by (simp add: vadd_def)
  have "foldl vadd (vadd acc y) ys = map (\<lambda>i. vadd acc y ! i + (\<Sum>y\<leftarrow>ys. y ! i)) [0..<n]"
    using Cons.IH [OF l] Cons.prems by simp
  also have "\<dots> = map (\<lambda>i. acc ! i + (\<Sum>y\<leftarrow>y # ys. y ! i)) [0..<n]"
    using Cons.prems by (intro map_cong) (simp_all add: vadd_def)
  finally show ?case by simp
qed

lemma mean_loop:
  assumes "\<forall>y \<in> set ys. length y = n"
  shows "vdiv (foldl vadd (replicate n 0) ys) (real (length ys)) = pop_mean n ys"
proof -
  have "foldl vadd (replicate n 0) ys = map (\<lambda>i. replicate n 0 ! i + (\<Sum>y\<leftarrow>ys. y ! i)) [0..<n]"
    using assms by (intro foldl_vadd) simp_all
  also have "\<dots> = map (\<lambda>i. (\<Sum>y\<leftarrow>ys. y ! i)) [0..<n]"
    by (intro map_cong) simp_all
  finally show ?thesis
    by (simp add: vdiv_def pop_mean_def)
qed

lemma foldl_outer:
  assumes "length A = n" and "\<forall>row \<in> set A. length row = n" and "length mu = n"
    and "\<forall>y \<in> set ys. length y = n"
  shows "foldl (\<lambda>acc yn. madd acc (outer (vsub yn mu) (vsub yn mu))) A ys
           = map (\<lambda>i. map (\<lambda>j. A ! i ! j + (\<Sum>y\<leftarrow>ys. (y ! i - mu ! i) * (y ! j - mu ! j)))
                        [0..<n]) [0..<n]"
  using assms
proof (induction ys arbitrary: A)
  case Nil
  have "map (\<lambda>j. A ! i ! j) [0..<n] = A ! i" if "i < n" for i
  proof -
    have "length (A ! i) = n" using Nil.prems that by simp
    then show ?thesis by (metis map_nth)
  qed
  then have "map (\<lambda>i. map (\<lambda>j. A ! i ! j) [0..<n]) [0..<n] = map (\<lambda>i. A ! i) [0..<n]"
    by (intro map_cong) simp_all
  also have "\<dots> = A" using Nil.prems by (metis map_nth)
  finally show ?case by simp
next
  case (Cons y ys)
  let ?B = "madd A (outer (vsub y mu) (vsub y mu))"
  have ly: "length y = n" using Cons.prems by simp
  have lB: "length ?B = n"
    using Cons.prems by (simp add: madd_def outer_def vsub_def)
  have rB: "\<forall>row \<in> set ?B. length row = n"
    using Cons.prems
    by (auto simp: madd_def outer_def vsub_def vadd_def set_zip)
  have eB: "?B ! i ! j = A ! i ! j + (y ! i - mu ! i) * (y ! j - mu ! j)" if "i < n" "j < n" for i j
    using that Cons.prems by (simp add: madd_def outer_def vsub_def vadd_def)
  have "foldl (\<lambda>acc yn. madd acc (outer (vsub yn mu) (vsub yn mu))) ?B ys
          = map (\<lambda>i. map (\<lambda>j. ?B ! i ! j + (\<Sum>y\<leftarrow>ys. (y ! i - mu ! i) * (y ! j - mu ! j)))
                        [0..<n]) [0..<n]"
    using Cons.IH [OF lB rB] Cons.prems by simp
  also have "\<dots> = map (\<lambda>i. map (\<lambda>j. A ! i ! j + (\<Sum>y\<leftarrow>y # ys. (y ! i - mu ! i) * (y ! j - mu ! j)))
                        [0..<n]) [0..<n]"
    by (intro map_cong refl) (simp add: eB)
  finally show ?case by simp
qed

lemma length_pop_mean: "length (pop_mean n ys) = n"
  by (simp add: pop_mean_def)

lemma cov_loop:
  assumes "\<forall>y \<in> set ys. length y = n"
  shows "mdiv (foldl (\<lambda>acc yn. madd acc (outer (vsub yn (pop_mean n ys)) (vsub yn (pop_mean n ys))))
                 (zeros n n) ys) (real (length ys)) = pop_cov n ys"
proof -
  have "foldl (\<lambda>acc yn. madd acc (outer (vsub yn (pop_mean n ys)) (vsub yn (pop_mean n ys))))
          (zeros n n) ys
        = map (\<lambda>i. map (\<lambda>j. zeros n n ! i ! j +
                 (\<Sum>y\<leftarrow>ys. (y ! i - pop_mean n ys ! i) * (y ! j - pop_mean n ys ! j)))
                        [0..<n]) [0..<n]"
    using assms by (intro foldl_outer) (simp_all add: zeros_def length_pop_mean)
  also have "\<dots> = map (\<lambda>i. map (\<lambda>j.
                 (\<Sum>y\<leftarrow>ys. (y ! i - pop_mean n ys ! i) * (y ! j - pop_mean n ys ! j)))
                        [0..<n]) [0..<n]"
    by (intro map_cong refl) (simp add: zeros_def)
  finally show ?thesis
    by (simp add: mdiv_def vdiv_def pop_cov_def o_def)
qed

lemma resampling_stats_eq:
  assumes "\<forall>t \<in> set (gp_cluster_data g). wf_trajectory (gp_ndim g) t"
  shows "resampling_stats g =
           Inr (pop_mean (gp_ndim g * gp_ngaus g) (map (resampled (gp_ngaus g) (gp_ndim g)) (gp_cluster_data g)),
                pop_cov (gp_ndim g * gp_ngaus g) (map (resampled (gp_ngaus g) (gp_ndim g)) (gp_cluster_data g)))"
proof -
  let ?ys = "map (resampled (gp_ngaus g) (gp_ndim g)) (gp_cluster_data g)"
  let ?n = "gp_ndim g * gp_ngaus g"
  have s: "sequence_err (map (resample (gp_ngaus g) (gp_ndim g)) (gp_cluster_data g)) = Inr ?ys"
    using assms by (intro sequence_err_Inr) (simp add: resample_ok)
  have l: "\<forall>y \<in> set ?ys. length y = ?n"
    by (simp add: length_resampled)
  have m: "vdiv (foldl vadd (replicate ?n 0) ?ys) (real (length (gp_cluster_data g))) = pop_mean ?n ?ys"
    using mean_loop [OF l] by simp
  have c: "mdiv (foldl (\<lambda>acc yn. madd acc (outer (vsub yn (pop_mean ?n ?ys)) (vsub yn (pop_mean ?n ?ys))))
                 (zeros ?n ?n) ?ys) (real (length (gp_cluster_data g))) = pop_cov ?n ?ys"
    using cov_loop [OF l] by simp
  show ?thesis
    by (simp add: resampling_stats_def s Let_def m c)
qed


















lemma example_two_levels:
  "resampling_stats \<lparr>gp_cluster_data = [([0, 1], [[0, 0], [0, 0]]), ([0, 1], [[1, 1], [1, 1]])],
       gp_outline = [0, 1, 0, 2], gp_ngaus = 2, gp_ndim = 2\<rparr>
     = Inr ([1 / 2, 1 / 2, 1 / 2, 1 / 2],
            [[1 / 4, 1 / 4, 1 / 4, 1 / 4], [1 / 4, 1 / 4, 1 / 4, 1 / 4],
             [1 / 4, 1 / 4, 1 / 4, 1 / 4], [1 / 4, 1 / 4, 1 / 4, 1 / 4]])"
  "norm2real \<lparr>gp_cluster_data = [([0, 1], [[0, 0], [0, 0]]), ([0, 1], [[1, 1], [1, 1]])],
       gp_outline = [0, 1, 0, 2], gp_ngaus = 2, gp_ndim = 2\<rparr>
       [1 / 2, 1 / 2, 1 / 2, 1 / 2]
       [[1 / 4, 1 / 4, 1 / 4, 1 / 4], [1 / 4, 1 / 4, 1 / 4, 1 / 4],
        [1 / 4, 1 / 4, 1 / 4, 1 / 4], [1 / 4, 1 / 4, 1 / 4, 1 / 4]]
     = Inr ([1 / 2, 1 / 2, 1, 1],
            [[1 / 4, 1 / 4, 1, 1], [1 / 4, 1 / 4, 1, 1], [1 / 4, 1 / 4, 1, 1], [1 / 4, 1 / 4, 1, 1]])"
  "getGMMCells nearest_spd 2 [1 / 2, 1 / 2, 1, 1]
       [[1 / 4, 1 / 4, 1, 1], [1 / 4, 1 / 4, 1, 1], [1 / 4, 1 / 4, 1, 1], [1 / 4, 1 / 4, 1, 1]] 2
     = Inr ([[1 / 2, 1], [1 / 2, 1]],
            [nearest_spd [[1 / 4, 1], [1 / 4, 1]], nearest_spd [[1 / 4, 1], [1 / 4, 1]]])"
  by code_simp+

lemma model_by_resampling_two_levels:
  "model_by_resampling nearest_spd
       \<lparr>gp_cluster_data = [([0, 1], [[0, 0], [0, 0]]), ([0, 1], [[1, 1], [1, 1]])],
        gp_outline = [0, 1, 0, 2], gp_ngaus = 2, gp_ndim = 2\<rparr>
     = Inr ([1 / 2, 1 / 2, 1, 1],
            [[1 / 4, 1 / 4, 1, 1], [1 / 4, 1 / 4, 1, 1], [1 / 4, 1 / 4, 1, 1], [1 / 4, 1 / 4, 1, 1]],
            [[1 / 2, 1], [1 / 2, 1]],
            [nearest_spd [[1 / 4, 1], [1 / 4, 1]], nearest_spd [[1 / 4, 1], [1 / 4, 1]]])"
  unfolding model_by_resampling_def
  by (simp add: example_two_levels)

text \<open>
  C2 at a failing input: two trajectories, constant at the normalised levels 0 and 1 in
  both dimensions, with ranges 1 and 2 in the outline. \<open>_norm2real\<close> multiplies the
  covariance by \<open>diag(D\<^sup>2)\<close> on the right only, so column \<open>j\<close> is scaled by
  \<open>D\<^sub>j\<^sup>2\<close> and the returned matrix is not symmetric.
\<close>

theorem model_by_resampling_asymmetric:
  "\<exists>mu sig cc cA. model_by_resampling nearest_spd
       \<lparr>gp_cluster_data = [([0, 1], [[0, 0], [0, 0]]), ([0, 1], [[1, 1], [1, 1]])],
        gp_outline = [0, 1, 0, 2], gp_ngaus = 2, gp_ndim = 2\<rparr> = Inr (mu, sig, cc, cA) \<and>
     sig ! 0 ! 2 = 1 \<and> sig ! 2 ! 0 = 1 / 4 \<and> mT sig \<noteq> sig"
proof -
  have "mT [[1 / 4, 1 / 4, 1, 1], [1 / 4, 1 / 4, 1, 1], [1 / 4, 1 / 4, 1, 1], [1 / 4, 1 / 4, 1, (1::real)]]
          \<noteq> [[1 / 4, 1 / 4, 1, 1], [1 / 4, 1 / 4, 1, 1], [1 / 4, 1 / 4, 1, 1], [1 / 4, 1 / 4, 1, 1]]"
    by code_simp
  then show ?thesis
    by (simp add: model_by_resampling_two_levels)
qed


subsection \<open>Construction and expectation maximization\<close>

lemma unpack2_tuple4: "unpack2 (tuple4 r) = Inl ValueError"
  by (cases r) (simp add: unpack2_def tuple4_def)

lemma run_estimator_tuple4:
  "run_estimator H N settings model_type ngaus g = Inr result \<Longrightarrow> \<exists>r. result = tuple4 r"
  by (auto simp: run_estimator_def map_sum_def split: if_splits sum.splits)

text \<open>
  C1 at every input: each estimator returns a tuple of four objects, and
  \<open>Model.__init__\<close> unpacks it into two names, so construction ends in an exception
  whatever the ensemble and the settings are. For valid settings and a run in which
  nothing else raises, the exception is the \<open>ValueError\<close> of the unpacking.
\<close>

theorem Model_init_never_returns:
  "\<exists>e. Model_init H N cluster_data settings = Inl e"
proof (cases "Model_init H N cluster_data settings")
  case (Inl e)
  then show ?thesis by blast
next
  case (Inr m)
  then obtain model_type ngaus g result where
    "run_estimator H N settings model_type ngaus g = Inr result"
    and u: "unpack2 result \<noteq> Inl ValueError"
    by (auto simp: Model_init_def split: sum.splits prod.splits pyobj.splits)
  then show ?thesis
    using run_estimator_tuple4 unpack2_tuple4 by blast
qed

lemma Model_init_unpack_error:
  assumes "check_settings settings = Inr (model_type, ngaus)"
    and "h_getDimension H cluster_data = Inr nd"
    and "normalise_data cluster_data = Inr norm_cluster_data"
    and "GaussianProcess_init H norm_cluster_data ngaus = Inr g"
    and "run_estimator H N settings model_type ngaus g = Inr result"
  shows "Model_init H N cluster_data settings = Inl ValueError"
proof -
  from assms(5) obtain r where "result = tuple4 r"
    using run_estimator_tuple4 by blast
  then have "unpack2 result = Inl ValueError"
    by (simp add: unpack2_tuple4)
  with assms show ?thesis
    by (simp add: Model_init_def)
qed

text \<open>
  C3 at every matrix with a condition number: a condition number is at least one, or
  infinite for a singular matrix, so the test \<open>cond(sig_w) > 0\<close> holds and \<open>_L_pw\<close>
  returns the sentinel; the determinant-based term is not computed, however well
  conditioned \<open>sig_w\<close> is.
\<close>

theorem L_pw_sentinel:
  assumes "np_cond sig_w = Inr c" and "c = PInf \<or> (\<exists>k. c = Fin k \<and> 1 \<le> k)"
  shows "L_pw np_cond det_prior Ewc Ewwc mu_w sig_w sig_w_inv ndim nbasis = Inr (Fin 10000)"
  using assms by (auto simp: L_pw_def)

theorem L_pw_sentinel_witness:
  "L_pw (\<lambda>A. Inr (Fin 1)) (\<lambda>Ewc Ewwc mu_w sig_w sig_w_inv ndim nbasis. Fin 0) [] [] [0, 0, 0, 0] (eye 4) (eye 4) 2 2
     = Inr (Fin 10000)"
  by (rule L_pw_sentinel [where c = "Fin 1"]) simp_all

lemma em_iteration_counts:
  "em_iteration H N yc Hc ndim Mstar nbasis st = Inr (st1, pY) \<Longrightarrow>
     st_iterations st1 = Suc (st_iterations st)"
  by (auto simp: em_iteration_def Let_def split: sum.splits prod.splits)

lemma em_loop_step:
  "em_iteration H N yc Hc ndim Mstar nbasis st = Inr (st1, pY) \<Longrightarrow>
     em_loop H N yc Hc ndim Mstar nbasis (Suc k) st =
       (if \<not> isfinite pY \<or> flt (fabs (fsub pY (st_loglikelihood_previous st))) (Fin (1 / 1000))
        then Inr st1
        else em_loop H N yc Hc ndim Mstar nbasis k (st1\<lparr>st_loglikelihood_previous := pY\<rparr>))"
  by (simp add: Let_def)

lemma em_loop_bound:
  "em_loop H N yc Hc ndim Mstar nbasis n st = Inr st' \<Longrightarrow>
     st_iterations st' \<le> st_iterations st + n \<and>
     (st_iterations st' < st_iterations st + n \<longrightarrow>
        (\<exists>st0 pY. em_iteration H N yc Hc ndim Mstar nbasis st0 = Inr (st', pY) \<and>
           (\<not> isfinite pY \<or>
            flt (fabs (fsub pY (st_loglikelihood_previous st0))) (Fin (1 / 1000)))))"
proof (induction n arbitrary: st)
  case 0
  then show ?case by simp
next
  case (Suc k)
  from Suc.prems obtain st1 pY where it: "em_iteration H N yc Hc ndim Mstar nbasis st = Inr (st1, pY)"
    by (cases "em_iteration H N yc Hc ndim Mstar nbasis st") auto
  have c: "st_iterations st1 = Suc (st_iterations st)"
    using it by (rule em_iteration_counts)
  show ?case
  proof (cases "\<not> isfinite pY \<or> flt (fabs (fsub pY (st_loglikelihood_previous st))) (Fin (1 / 1000))")
    case True
    with Suc.prems it have "st' = st1"
      by (simp add: em_loop_step del: em_loop.simps)
    with it True c show ?thesis by auto
  next
    case False
    with Suc.prems it
    have "em_loop H N yc Hc ndim Mstar nbasis k (st1\<lparr>st_loglikelihood_previous := pY\<rparr>) = Inr st'"
      by (simp add: em_loop_step del: em_loop.simps)
    from Suc.IH [OF this] c show ?thesis by simp
  qed
qed

lemma getitem_other_key: "key \<noteq> k \<Longrightarrow> getitem (settings(key \<mapsto> v)) k = getitem settings k"
  by (simp add: getitem_def)

lemma run_estimator_other_key:
  assumes "key \<noteq> ''basis_type'' \<and> key \<noteq> ''nbasis''"
  shows "run_estimator H N (settings(key \<mapsto> v)) model_type ngaus g =
         run_estimator H N settings model_type ngaus g"
proof -
  have "getitem (settings(key \<mapsto> v)) ''basis_type'' = getitem settings ''basis_type''"
    "getitem (settings(key \<mapsto> v)) ''nbasis'' = getitem settings ''nbasis''"
    using assms by (simp_all add: getitem_other_key)
  then show ?thesis
    by (simp add: run_estimator_def split: sum.splits)
qed

text \<open>
  C4, as the code has it. \<open>em_loop\<close> is total by recursion on the iterations left. A
  run that returns has made at most \<open>n\<close> iterations, \<open>n\<close> being the parameter
  \<open>maximum_iterations\<close>; if it has made fewer, the state returned is the one left by an
  iteration whose log-likelihood was not finite or differed from the previous one by
  less than \<open>1e-3\<close>. Each iteration stops the loop exactly in these two cases, and
  what is returned is the state as that iteration updated it. Construction runs the
  loop with 2001 iterations: no entry of the settings but \<open>basis_type\<close> and
  \<open>nbasis\<close> reaches an estimator.
\<close>

theorem em_loop_stops:
  assumes "em_loop H N yc Hc ndim Mstar nbasis n st = Inr st'"
  shows "st_iterations st' \<le> st_iterations st + n \<and>
         (st_iterations st' < st_iterations st + n \<longrightarrow>
            (\<exists>st0 pY. em_iteration H N yc Hc ndim Mstar nbasis st0 = Inr (st', pY) \<and>
               (\<not> isfinite pY \<or>
                flt (fabs (fsub pY (st_loglikelihood_previous st0))) (Fin (1 / 1000))))) \<and>
         (\<forall>k s s1 pY. em_iteration H N yc Hc ndim Mstar nbasis s = Inr (s1, pY) \<longrightarrow>
            em_loop H N yc Hc ndim Mstar nbasis (Suc k) s =
              (if \<not> isfinite pY \<or>
                  flt (fabs (fsub pY (st_loglikelihood_previous s))) (Fin (1 / 1000))
               then Inr s1
               else em_loop H N yc Hc ndim Mstar nbasis k (s1\<lparr>st_loglikelihood_previous := pY\<rparr>))) \<and>
         (\<forall>settings model_type ngaus g key v. key \<noteq> ''basis_type'' \<and> key \<noteq> ''nbasis'' \<longrightarrow>
            run_estimator H N (settings(key \<mapsto> v)) model_type ngaus g =
            run_estimator H N settings model_type ngaus g)"
  using em_loop_bound [OF assms] em_loop_step run_estimator_other_key by blast

lemma em_example_first_iteration:
  "em_iteration
       \<lparr>h_getDimension = \<lambda>c. Inr 1, h_outline = \<lambda>c. Inr [0, 1], h_norm = \<lambda>c ol. Inr c,
        h_nearest_spd = \<lambda>A. A, h_Basis = \<lambda>t nb nd. Inr (\<lambda>x. [[1]]), h_pinv = Inr, h_inv = Inr,
        h_cond = \<lambda>A. Inr (Fin 1)\<rparr>
       \<lparr>n_Ewc_Ewwc = \<lambda>yc Hc mu_w sig_w_inv BETA. Inr ([map (\<lambda>w. w + 1) mu_w], [[[1]]]),
        n_E_mu = \<lambda>Ewc. concat Ewc, n_E_sigma = \<lambda>mu_w yc Hc Ewc Ewwc. [[1]],
        n_E_beta = \<lambda>yc Hc Ewc Ewwc ndim Mstar. Fin 1,
        n_L_pYw = \<lambda>yc Hc Ewc Ewwc ndim Mstar BETA. if Ewc = [[1]] then Fin 0 else NaN,
        n_det_prior = \<lambda>Ewc Ewwc mu_w sig_w sig_w_inv ndim nbasis. Fin 0\<rparr>
       [[0]] [[[1]]] 1 1 1
       \<lparr>st_mu_w = [0], st_sig_w = [[1]], st_sig_w_inv = [[1]], st_BETA_EM = Fin 1000,
        st_loglikelihood_previous = PInf, st_iterations = 0\<rparr>
     = Inr (\<lparr>st_mu_w = [1], st_sig_w = [[1]], st_sig_w_inv = [[1]], st_BETA_EM = Fin 1,
        st_loglikelihood_previous = PInf, st_iterations = 1\<rparr>, Fin 10000)"
  by (simp add: em_iteration_def L_pw_def Let_def)

lemma em_example_run:
  "em_loop
       \<lparr>h_getDimension = \<lambda>c. Inr 1, h_outline = \<lambda>c. Inr [0, 1], h_norm = \<lambda>c ol. Inr c,
        h_nearest_spd = \<lambda>A. A, h_Basis = \<lambda>t nb nd. Inr (\<lambda>x. [[1]]), h_pinv = Inr, h_inv = Inr,
        h_cond = \<lambda>A. Inr (Fin 1)\<rparr>
       \<lparr>n_Ewc_Ewwc = \<lambda>yc Hc mu_w sig_w_inv BETA. Inr ([map (\<lambda>w. w + 1) mu_w], [[[1]]]),
        n_E_mu = \<lambda>Ewc. concat Ewc, n_E_sigma = \<lambda>mu_w yc Hc Ewc Ewwc. [[1]],
        n_E_beta = \<lambda>yc Hc Ewc Ewwc ndim Mstar. Fin 1,
        n_L_pYw = \<lambda>yc Hc Ewc Ewwc ndim Mstar BETA. if Ewc = [[1]] then Fin 0 else NaN,
        n_det_prior = \<lambda>Ewc Ewwc mu_w sig_w sig_w_inv ndim nbasis. Fin 0\<rparr>
       [[0]] [[[1]]] 1 1 1 (Suc (Suc k))
       \<lparr>st_mu_w = [0], st_sig_w = [[1]], st_sig_w_inv = [[1]], st_BETA_EM = Fin 1000,
        st_loglikelihood_previous = PInf, st_iterations = 0\<rparr>
     = Inr \<lparr>st_mu_w = [2], st_sig_w = [[1]], st_sig_w_inv = [[1]], st_BETA_EM = Fin 1,
        st_loglikelihood_previous = Fin 10000, st_iterations = 2\<rparr>"
  by (simp add: em_iteration_def L_pw_def Let_def fsub_def)

lemma numeral_2001: "(2001::nat) = Suc (Suc 1999)"
  by simp

text \<open>
  C4, as the claim states it, fails: with numerical steps whose log-likelihood is
  finite in the first iteration and NaN in the second, the loop returns the state of
  the second iteration (\<open>mu_w = [2]\<close>), not the state the first iteration left
  (\<open>mu_w = [1]\<close>), the last one with a finite log-likelihood.
\<close>

theorem em_loop_returns_aborting_state:
  "em_iteration
       \<lparr>h_getDimension = \<lambda>c. Inr 1, h_outline = \<lambda>c. Inr [0, 1], h_norm = \<lambda>c ol. Inr c,
        h_nearest_spd = \<lambda>A. A, h_Basis = \<lambda>t nb nd. Inr (\<lambda>x. [[1]]), h_pinv = Inr, h_inv = Inr,
        h_cond = \<lambda>A. Inr (Fin 1)\<rparr>
       \<lparr>n_Ewc_Ewwc = \<lambda>yc Hc mu_w sig_w_inv BETA. Inr ([map (\<lambda>w. w + 1) mu_w], [[[1]]]),
        n_E_mu = \<lambda>Ewc. concat Ewc, n_E_sigma = \<lambda>mu_w yc Hc Ewc Ewwc. [[1]],
        n_E_beta = \<lambda>yc Hc Ewc Ewwc ndim Mstar. Fin 1,
        n_L_pYw = \<lambda>yc Hc Ewc Ewwc ndim Mstar BETA. if Ewc = [[1]] then Fin 0 else NaN,
        n_det_prior = \<lambda>Ewc Ewwc mu_w sig_w sig_w_inv ndim nbasis. Fin 0\<rparr>
       [[0]] [[[1]]] 1 1 1
       \<lparr>st_mu_w = [0], st_sig_w = [[1]], st_sig_w_inv = [[1]], st_BETA_EM = Fin 1000,
        st_loglikelihood_previous = PInf, st_iterations = 0\<rparr>
     = Inr (\<lparr>st_mu_w = [1], st_sig_w = [[1]], st_sig_w_inv = [[1]], st_BETA_EM = Fin 1,
        st_loglikelihood_previous = PInf, st_iterations = 1\<rparr>, Fin 10000) \<and>
   em_loop
       \<lparr>h_getDimension = \<lambda>c. Inr 1, h_outline = \<lambda>c. Inr [0, 1], h_norm = \<lambda>c ol. Inr c,
        h_nearest_spd = \<lambda>A. A, h_Basis = \<lambda>t nb nd. Inr (\<lambda>x. [[1]]), h_pinv = Inr, h_inv = Inr,
        h_cond = \<lambda>A. Inr (Fin 1)\<rparr>
       \<lparr>n_Ewc_Ewwc = \<lambda>yc Hc mu_w sig_w_inv BETA. Inr ([map (\<lambda>w. w + 1) mu_w], [[[1]]]),
        n_E_mu = \<lambda>Ewc. concat Ewc, n_E_sigma = \<lambda>mu_w yc Hc Ewc Ewwc. [[1]],
        n_E_beta = \<lambda>yc Hc Ewc Ewwc ndim Mstar. Fin 1,
        n_L_pYw = \<lambda>yc Hc Ewc Ewwc ndim Mstar BETA. if Ewc = [[1]] then Fin 0 else NaN,
        n_det_prior = \<lambda>Ewc Ewwc mu_w sig_w sig_w_inv ndim nbasis. Fin 0\<rparr>
       [[0]] [[[1]]] 1 1 1 2001
       \<lparr>st_mu_w = [0], st_sig_w = [[1]], st_sig_w_inv = [[1]], st_BETA_EM = Fin 1000,
        st_loglikelihood_previous = PInf, st_iterations = 0\<rparr>
     = Inr \<lparr>st_mu_w = [2], st_sig_w = [[1]], st_sig_w_inv = [[1]], st_BETA_EM = Fin 1,
        st_loglikelihood_previous = Fin 10000, st_iterations = 2\<rparr>"
  by (subst numeral_2001) (simp only: em_example_first_iteration em_example_run simp_thms)

theorem em_loop_stops_witness:
  "st_iterations \<lparr>st_mu_w = [2], st_sig_w = [[1]], st_sig_w_inv = [[1]], st_BETA_EM = Fin 1,
        st_loglikelihood_previous = Fin 10000, st_iterations = 2\<rparr> \<le> 2001 \<and>
   (\<exists>st0 pY. em_iteration
       \<lparr>h_getDimension = \<lambda>c. Inr 1, h_outline = \<lambda>c. Inr [0, 1], h_norm = \<lambda>c ol. Inr c,
        h_nearest_spd = \<lambda>A. A, h_Basis = \<lambda>t nb nd. Inr (\<lambda>x. [[1]]), h_pinv = Inr, h_inv = Inr,
        h_cond = \<lambda>A. Inr (Fin 1)\<rparr>
       \<lparr>n_Ewc_Ewwc = \<lambda>yc Hc mu_w sig_w_inv BETA. Inr ([map (\<lambda>w. w + 1) mu_w], [[[1]]]),
        n_E_mu = \<lambda>Ewc. concat Ewc, n_E_sigma = \<lambda>mu_w yc Hc Ewc Ewwc. [[1]],
        n_E_beta = \<lambda>yc Hc Ewc Ewwc ndim Mstar. Fin 1,
        n_L_pYw = \<lambda>yc Hc Ewc Ewwc ndim Mstar BETA. if Ewc = [[1]] then Fin 0 else NaN,
        n_det_prior = \<lambda>Ewc Ewwc mu_w sig_w sig_w_inv ndim nbasis. Fin 0\<rparr>
       [[0]] [[[1]]] 1 1 1 st0
       = Inr (\<lparr>st_mu_w = [2], st_sig_w = [[1]], st_sig_w_inv = [[1]], st_BETA_EM = Fin 1,
        st_loglikelihood_previous = Fin 10000, st_iterations = 2\<rparr>, pY) \<and>
      (\<not> isfinite pY \<or> flt (fabs (fsub pY (st_loglikelihood_previous st0))) (Fin (1 / 1000))))"
proof -
  have run: "em_loop
       \<lparr>h_getDimension = \<lambda>c. Inr 1, h_outline = \<lambda>c. Inr [0, 1], h_norm = \<lambda>c ol. Inr c,
        h_nearest_spd = \<lambda>A. A, h_Basis = \<lambda>t nb nd. Inr (\<lambda>x. [[1]]), h_pinv = Inr, h_inv = Inr,
        h_cond = \<lambda>A. Inr (Fin 1)\<rparr>
       \<lparr>n_Ewc_Ewwc = \<lambda>yc Hc mu_w sig_w_inv BETA. Inr ([map (\<lambda>w. w + 1) mu_w], [[[1]]]),
        n_E_mu = \<lambda>Ewc. concat Ewc, n_E_sigma = \<lambda>mu_w yc Hc Ewc Ewwc. [[1]],
        n_E_beta = \<lambda>yc Hc Ewc Ewwc ndim Mstar. Fin 1,
        n_L_pYw = \<lambda>yc Hc Ewc Ewwc ndim Mstar BETA. if Ewc = [[1]] then Fin 0 else NaN,
        n_det_prior = \<lambda>Ewc Ewwc mu_w sig_w sig_w_inv ndim nbasis. Fin 0\<rparr>
       [[0]] [[[1]]] 1 1 1 2001
       \<lparr>st_mu_w = [0], st_sig_w = [[1]], st_sig_w_inv = [[1]], st_BETA_EM = Fin 1000,
        st_loglikelihood_previous = PInf, st_iterations = 0\<rparr>
     = Inr \<lparr>st_mu_w = [2], st_sig_w = [[1]], st_sig_w_inv = [[1]], st_BETA_EM = Fin 1,
        st_loglikelihood_previous = Fin 10000, st_iterations = 2\<rparr>"
    by (subst numeral_2001) (rule em_example_run)
  from em_loop_stops [OF run] show ?thesis
    by simp
qed

subsection \<open>Further properties\<close>

lemma ncols_map_upt: "0 < n \<Longrightarrow> ncols (map f [0..<n]) = length (f 0)"
proof -
  assume "0 < n"
  then have u: "[0..<n] = 0 # [1..<n]"
    by (simp add: upt_conv_Cons del: upt_Suc)
  show ?thesis
    unfolding ncols_def by (subst u) simp
qed

lemma mT_symmetric_entries:
  assumes "\<And>i j. i < n \<Longrightarrow> j < n \<Longrightarrow> f i j = f j i"
  shows "mT (map (\<lambda>i. map (\<lambda>j. f i j) [0..<n]) [0..<n]) = map (\<lambda>i. map (\<lambda>j. f i j) [0..<n]) [0..<n]"
proof (cases "n = 0")
  case True
  then show ?thesis by (simp add: mT_def ncols_def)
next
  case False
  then have nc: "ncols (map (\<lambda>i. map (\<lambda>j. f i j) [0..<n]) [0..<n]) = n"
    by (simp add: ncols_map_upt)
  have "col (map (\<lambda>i. map (\<lambda>j. f i j) [0..<n]) [0..<n]) j = map (\<lambda>i. f j i) [0..<n]" if "j < n" for j
    using that assms by (simp add: col_def)
  then show ?thesis
    unfolding mT_def nc by (intro map_cong) simp_all
qed

lemma pop_cov_symmetric: "mT (pop_cov n ys) = pop_cov n ys"
  unfolding pop_cov_def
  by (rule mT_symmetric_entries) (simp add: mult.commute)

text \<open>
  X1. The covariance that lines 113 to 118 of \<open>model_by_resampling\<close> accumulate,
  before \<open>_norm2real\<close>, is symmetric.
\<close>

theorem resampling_stats_symmetric:
  assumes "\<forall>t \<in> set (gp_cluster_data g). wf_trajectory (gp_ndim g) t"
  shows "\<exists>mu sig. resampling_stats g = Inr (mu, sig) \<and> mT sig = sig"
  using resampling_stats_eq [OF assms] pop_cov_symmetric by simp

lemma bshape_same: "bshape s s = Some s"
  by (induction s) simp_all

lemma np_all_eq_same: "np_all_eq mm a a = Inr True"
  by (simp add: np_all_eq_def broadcast_shape_def bshape_same list_all_iff)

lemma same_grid_same: "same_grid mm xx yy zz xx yy zz = Inr True"
  by (cases zz) (simp_all add: same_grid_def and_then_def np_all_eq_same np_all_eq_opt_def)

lemma cached_logp_append:
  "cached_logp mm (es @ fs) xx yy zz acc =
     (case cached_logp mm es xx yy zz acc of Inl e \<Rightarrow> Inl e | Inr r \<Rightarrow> cached_logp mm fs xx yy zz r)"
proof (induction es arbitrary: acc)
  case Nil
  show ?case by simp
next
  case (Cons e es)
  obtain ss1 xx1 yy1 zz1 where e: "e = (ss1, xx1, yy1, zz1)"
    by (cases e) auto
  show ?case
    by (simp add: e Cons.IH split: sum.splits bool.splits)
qed

text \<open>
  X2. Memoization: after a call of \<open>evalLogLikelihood\<close> that returned, a call with
  the same grid returns the same values and leaves the cache as it is, whatever the
  density helper would compute (coordinates are finite numbers here; a NaN coordinate
  is not equal to itself).
\<close>

theorem evalLogLikelihood_memoized:
  assumes "evalLogLikelihood mm logLc m xx yy zz = Inr (ss, m')"
  shows "evalLogLikelihood mm logLc' m' xx yy zz = Inr (ss, m')"
proof -
  from assms have sh: "shape xx = shape yy"
    by (auto simp: evalLogLikelihood_def split: if_splits)
  from assms obtain r where c: "cached_logp mm (list_logp m) xx yy zz None = Inr r"
    by (auto simp: evalLogLikelihood_def sh split: sum.splits)
  show ?thesis
  proof (cases r)
    case (Some s)
    with assms c sh have "ss = s" "m' = m"
      by (auto simp: evalLogLikelihood_def)
    with c Some sh show ?thesis
      by (simp add: evalLogLikelihood_def)
  next
    case None
    with assms c sh have m': "m' = m\<lparr>list_logp := list_logp m @ [(ss, xx, yy, zz)]\<rparr>"
      by (auto simp: evalLogLikelihood_def split: sum.splits)
    have "cached_logp mm (list_logp m') xx yy zz None = Inr (Some ss)"
      by (simp add: m' cached_logp_append c same_grid_same)
    then show ?thesis
      by (simp add: evalLogLikelihood_def sh)
  qed
qed

theorem evalLogLikelihood_memoized_witness:
  "evalLogLikelihood (Inr False) (\<lambda>p. NaN)
     \<lparr>m_ndim = 2, m_mu_y = [], m_sig_y = [], m_cc = [], m_cA = [], list_tube = [],
      list_logp = [(\<lparr>shape = [2, 1], elems = [Fin 3, Fin 4]\<rparr>, \<lparr>shape = [2, 1], elems = [0, 1]\<rparr>,
                    \<lparr>shape = [2, 1], elems = [5, 5]\<rparr>, None)]\<rparr>
     \<lparr>shape = [2, 1], elems = [0, 1]\<rparr> \<lparr>shape = [2, 1], elems = [5, 5]\<rparr> None
   = Inr (\<lparr>shape = [2, 1], elems = [Fin 3, Fin 4]\<rparr>,
     \<lparr>m_ndim = 2, m_mu_y = [], m_sig_y = [], m_cc = [], m_cA = [], list_tube = [],
      list_logp = [(\<lparr>shape = [2, 1], elems = [Fin 3, Fin 4]\<rparr>, \<lparr>shape = [2, 1], elems = [0, 1]\<rparr>,
                    \<lparr>shape = [2, 1], elems = [5, 5]\<rparr>, None)]\<rparr>)"
proof -
  have first: "evalLogLikelihood (Inr False) (\<lambda>p. if p = [0, 5] then Fin 3 else Fin 4)
     \<lparr>m_ndim = 2, m_mu_y = [], m_sig_y = [], m_cc = [], m_cA = [], list_tube = [], list_logp = []\<rparr>
     \<lparr>shape = [2, 1], elems = [0, 1]\<rparr> \<lparr>shape = [2, 1], elems = [5, 5]\<rparr> None
   = Inr (\<lparr>shape = [2, 1], elems = [Fin 3, Fin 4]\<rparr>,
     \<lparr>m_ndim = 2, m_mu_y = [], m_sig_y = [], m_cc = [], m_cA = [], list_tube = [],
      list_logp = [(\<lparr>shape = [2, 1], elems = [Fin 3, Fin 4]\<rparr>, \<lparr>shape = [2, 1], elems = [0, 1]\<rparr>,
                    \<lparr>shape = [2, 1], elems = [5, 5]\<rparr>, None)]\<rparr>)"
    by (simp add: grid_defs)
  show ?thesis
    by (rule evalLogLikelihood_memoized [OF first])
qed

theorem resampling_stats_symmetric_witness:
  "\<exists>mu sig. resampling_stats
       \<lparr>gp_cluster_data = [([0, 1], [[0, 0], [0, 0]]), ([0, 1], [[1, 1], [1, 1]])],
        gp_outline = [0, 1, 0, 2], gp_ngaus = 2, gp_ndim = 2\<rparr> = Inr (mu, sig) \<and> mT sig = sig"
  by (rule resampling_stats_symmetric) (simp add: wf_trajectory_def)

text \<open>
  X3. Construction rejects settings without \<open>model_type\<close> or \<open>ngaus\<close>
  (\<open>ValueError\<close>), with a \<open>model_type\<close> that is not a string or an \<open>ngaus\<close> that is
  not an integer (\<open>TypeError\<close>), for \<open>ML\<close> and \<open>EM\<close> settings without
  \<open>basis_type\<close> or \<open>nbasis\<close> or with \<open>nbasis < 2\<close> (\<open>ValueError\<close>), and, once the
  Gaussian process is built, an unknown \<open>model_type\<close> (\<open>NotImplementedError\<close>).
\<close>

theorem Model_init_rejects_settings:
  "(settings ''model_type'' = None \<longrightarrow> Model_init H N cluster_data settings = Inl ValueError) \<and>
   (settings ''model_type'' = Some (PInt i) \<longrightarrow> Model_init H N cluster_data settings = Inl TypeError) \<and>
   (settings ''model_type'' = Some (PStr model_type) \<and> settings ''ngaus'' = None \<longrightarrow>
      Model_init H N cluster_data settings = Inl ValueError) \<and>
   (settings ''model_type'' = Some (PStr model_type) \<and> settings ''ngaus'' = Some (PFloat r) \<longrightarrow>
      Model_init H N cluster_data settings = Inl TypeError) \<and>
   (settings ''model_type'' = Some (PStr model_type) \<and> settings ''ngaus'' = Some (PInt ngaus) \<and>
    (model_type = ''ML'' \<or> model_type = ''EM'') \<and>
    (settings ''basis_type'' = None \<or> settings ''nbasis'' = None \<or>
     (\<exists>b nb. settings ''basis_type'' = Some b \<and> settings ''nbasis'' = Some (PInt nb) \<and> nb < 2)) \<longrightarrow>
      Model_init H N cluster_data settings = Inl ValueError) \<and>
   (settings ''model_type'' = Some (PStr model_type) \<and> settings ''ngaus'' = Some (PInt ngaus) \<and>
    model_type \<noteq> ''resampling'' \<and> model_type \<noteq> ''ML'' \<and> model_type \<noteq> ''EM'' \<and>
    h_getDimension H cluster_data = Inr nd \<and>
    normalise_data cluster_data = Inr norm_cluster_data \<and>
    GaussianProcess_init H norm_cluster_data ngaus = Inr g \<longrightarrow>
      Model_init H N cluster_data settings = Inl NotImplementedError)"
  by (auto simp: Model_init_def check_settings_def run_estimator_def less_than_two_def
        split: option.splits)

theorem Model_init_rejects_settings_witness:
  "Model_init
     \<lparr>h_getDimension = \<lambda>c. Inr 2, h_outline = \<lambda>c. Inr [0, 1, 0, 1], h_norm = \<lambda>c ol. Inr c,
      h_nearest_spd = \<lambda>A. A, h_Basis = \<lambda>t nb nd. Inr (\<lambda>x. [[1]]), h_pinv = Inr, h_inv = Inr,
      h_cond = \<lambda>A. Inr (Fin 1)\<rparr>
     \<lparr>n_Ewc_Ewwc = \<lambda>yc Hc mu_w sig_w_inv BETA. Inr ([mu_w], [[[1]]]),
      n_E_mu = \<lambda>Ewc. concat Ewc, n_E_sigma = \<lambda>mu_w yc Hc Ewc Ewwc. [[1]],
      n_E_beta = \<lambda>yc Hc Ewc Ewwc ndim Mstar. Fin 1,
      n_L_pYw = \<lambda>yc Hc Ewc Ewwc ndim Mstar BETA. Fin 0,
      n_det_prior = \<lambda>Ewc Ewwc mu_w sig_w sig_w_inv ndim nbasis. Fin 0\<rparr>
     [([0, 1], [[0, 0], [1, 1]])]
     Map.empty = Inl ValueError \<and>
   Model_init
     \<lparr>h_getDimension = \<lambda>c. Inr 2, h_outline = \<lambda>c. Inr [0, 1, 0, 1], h_norm = \<lambda>c ol. Inr c,
      h_nearest_spd = \<lambda>A. A, h_Basis = \<lambda>t nb nd. Inr (\<lambda>x. [[1]]), h_pinv = Inr, h_inv = Inr,
      h_cond = \<lambda>A. Inr (Fin 1)\<rparr>
     \<lparr>n_Ewc_Ewwc = \<lambda>yc Hc mu_w sig_w_inv BETA. Inr ([mu_w], [[[1]]]),
      n_E_mu = \<lambda>Ewc. concat Ewc, n_E_sigma = \<lambda>mu_w yc Hc Ewc Ewwc. [[1]],
      n_E_beta = \<lambda>yc Hc Ewc Ewwc ndim Mstar. Fin 1,
      n_L_pYw = \<lambda>yc Hc Ewc Ewwc ndim Mstar BETA. Fin 0,
      n_det_prior = \<lambda>Ewc Ewwc mu_w sig_w sig_w_inv ndim nbasis. Fin 0\<rparr>
     [([0, 1], [[0, 0], [1, 1]])]
     [''model_type'' \<mapsto> PInt 3] = Inl TypeError \<and>
   Model_init
     \<lparr>h_getDimension = \<lambda>c. Inr 2, h_outline = \<lambda>c. Inr [0, 1, 0, 1], h_norm = \<lambda>c ol. Inr c,
      h_nearest_spd = \<lambda>A. A, h_Basis = \<lambda>t nb nd. Inr (\<lambda>x. [[1]]), h_pinv = Inr, h_inv = Inr,
      h_cond = \<lambda>A. Inr (Fin 1)\<rparr>
     \<lparr>n_Ewc_Ewwc = \<lambda>yc Hc mu_w sig_w_inv BETA. Inr ([mu_w], [[[1]]]),
      n_E_mu = \<lambda>Ewc. concat Ewc, n_E_sigma = \<lambda>mu_w yc Hc Ewc Ewwc. [[1]],
      n_E_beta = \<lambda>yc Hc Ewc Ewwc ndim Mstar. Fin 1,
      n_L_pYw = \<lambda>yc Hc Ewc Ewwc ndim Mstar BETA. Fin 0,
      n_det_prior = \<lambda>Ewc Ewwc mu_w sig_w sig_w_inv ndim nbasis. Fin 0\<rparr>
     [([0, 1], [[0, 0], [1, 1]])]
     [''model_type'' \<mapsto> PStr ''EM''] = Inl ValueError \<and>
   Model_init
     \<lparr>h_getDimension = \<lambda>c. Inr 2, h_outline = \<lambda>c. Inr [0, 1, 0, 1], h_norm = \<lambda>c ol. Inr c,
      h_nearest_spd = \<lambda>A. A, h_Basis = \<lambda>t nb nd. Inr (\<lambda>x. [[1]]), h_pinv = Inr, h_inv = Inr,
      h_cond = \<lambda>A. Inr (Fin 1)\<rparr>
     \<lparr>n_Ewc_Ewwc = \<lambda>yc Hc mu_w sig_w_inv BETA. Inr ([mu_w], [[[1]]]),
      n_E_mu = \<lambda>Ewc. concat Ewc, n_E_sigma = \<lambda>mu_w yc Hc Ewc Ewwc. [[1]],
      n_E_beta = \<lambda>yc Hc Ewc Ewwc ndim Mstar. Fin 1,
      n_L_pYw = \<lambda>yc Hc Ewc Ewwc ndim Mstar BETA. Fin 0,
      n_det_prior = \<lambda>Ewc Ewwc mu_w sig_w sig_w_inv ndim nbasis. Fin 0\<rparr>
     [([0, 1], [[0, 0], [1, 1]])]
     [''model_type'' \<mapsto> PStr ''EM'', ''ngaus'' \<mapsto> PFloat 2] = Inl TypeError \<and>
   Model_init
     \<lparr>h_getDimension = \<lambda>c. Inr 2, h_outline = \<lambda>c. Inr [0, 1, 0, 1], h_norm = \<lambda>c ol. Inr c,
      h_nearest_spd = \<lambda>A. A, h_Basis = \<lambda>t nb nd. Inr (\<lambda>x. [[1]]), h_pinv = Inr, h_inv = Inr,
      h_cond = \<lambda>A. Inr (Fin 1)\<rparr>
     \<lparr>n_Ewc_Ewwc = \<lambda>yc Hc mu_w sig_w_inv BETA. Inr ([mu_w], [[[1]]]),
      n_E_mu = \<lambda>Ewc. concat Ewc, n_E_sigma = \<lambda>mu_w yc Hc Ewc Ewwc. [[1]],
      n_E_beta = \<lambda>yc Hc Ewc Ewwc ndim Mstar. Fin 1,
      n_L_pYw = \<lambda>yc Hc Ewc Ewwc ndim Mstar BETA. Fin 0,
      n_det_prior = \<lambda>Ewc Ewwc mu_w sig_w sig_w_inv ndim nbasis. Fin 0\<rparr>
     [([0, 1], [[0, 0], [1, 1]])]
     [''model_type'' \<mapsto> PStr ''EM'', ''ngaus'' \<mapsto> PInt 5,
      ''basis_type'' \<mapsto> PStr ''gaussian'', ''nbasis'' \<mapsto> PInt 1] = Inl ValueError \<and>
   Model_init
     \<lparr>h_getDimension = \<lambda>c. Inr 2, h_outline = \<lambda>c. Inr [0, 1, 0, 1], h_norm = \<lambda>c ol. Inr c,
      h_nearest_spd = \<lambda>A. A, h_Basis = \<lambda>t nb nd. Inr (\<lambda>x. [[1]]), h_pinv = Inr, h_inv = Inr,
      h_cond = \<lambda>A. Inr (Fin 1)\<rparr>
     \<lparr>n_Ewc_Ewwc = \<lambda>yc Hc mu_w sig_w_inv BETA. Inr ([mu_w], [[[1]]]),
      n_E_mu = \<lambda>Ewc. concat Ewc, n_E_sigma = \<lambda>mu_w yc Hc Ewc Ewwc. [[1]],
      n_E_beta = \<lambda>yc Hc Ewc Ewwc ndim Mstar. Fin 1,
      n_L_pYw = \<lambda>yc Hc Ewc Ewwc ndim Mstar BETA. Fin 0,
      n_det_prior = \<lambda>Ewc Ewwc mu_w sig_w sig_w_inv ndim nbasis. Fin 0\<rparr>
     [([0, 1], [[0, 0], [1, 1]])]
     [''model_type'' \<mapsto> PStr ''spline'', ''ngaus'' \<mapsto> PInt 5] = Inl NotImplementedError"
proof (intro conjI)
  show "Model_init
     \<lparr>h_getDimension = \<lambda>c. Inr 2, h_outline = \<lambda>c. Inr [0, 1, 0, 1], h_norm = \<lambda>c ol. Inr c,
      h_nearest_spd = \<lambda>A. A, h_Basis = \<lambda>t nb nd. Inr (\<lambda>x. [[1]]), h_pinv = Inr, h_inv = Inr,
      h_cond = \<lambda>A. Inr (Fin 1)\<rparr>
     \<lparr>n_Ewc_Ewwc = \<lambda>yc Hc mu_w sig_w_inv BETA. Inr ([mu_w], [[[1]]]),
      n_E_mu = \<lambda>Ewc. concat Ewc, n_E_sigma = \<lambda>mu_w yc Hc Ewc Ewwc. [[1]],
      n_E_beta = \<lambda>yc Hc Ewc Ewwc ndim Mstar. Fin 1,
      n_L_pYw = \<lambda>yc Hc Ewc Ewwc ndim Mstar BETA. Fin 0,
      n_det_prior = \<lambda>Ewc Ewwc mu_w sig_w sig_w_inv ndim nbasis. Fin 0\<rparr>
     [([0, 1], [[0, 0], [1, 1]])]
     Map.empty = Inl ValueError"
    using Model_init_rejects_settings
      [of "Map.empty"
          "\<lparr>h_getDimension = \<lambda>c. Inr 2, h_outline = \<lambda>c. Inr [0, 1, 0, 1], h_norm = \<lambda>c ol. Inr c,
      h_nearest_spd = \<lambda>A. A, h_Basis = \<lambda>t nb nd. Inr (\<lambda>x. [[1]]), h_pinv = Inr, h_inv = Inr,
      h_cond = \<lambda>A. Inr (Fin 1)\<rparr>"
          "\<lparr>n_Ewc_Ewwc = \<lambda>yc Hc mu_w sig_w_inv BETA. Inr ([mu_w], [[[1]]]),
      n_E_mu = \<lambda>Ewc. concat Ewc, n_E_sigma = \<lambda>mu_w yc Hc Ewc Ewwc. [[1]],
      n_E_beta = \<lambda>yc Hc Ewc Ewwc ndim Mstar. Fin 1,
      n_L_pYw = \<lambda>yc Hc Ewc Ewwc ndim Mstar BETA. Fin 0,
      n_det_prior = \<lambda>Ewc Ewwc mu_w sig_w sig_w_inv ndim nbasis. Fin 0\<rparr>"
          "[([0, 1], [[0, 0], [1, 1]])]" _ "''EM''"]
    by (simp)
  show "Model_init
     \<lparr>h_getDimension = \<lambda>c. Inr 2, h_outline = \<lambda>c. Inr [0, 1, 0, 1], h_norm = \<lambda>c ol. Inr c,
      h_nearest_spd = \<lambda>A. A, h_Basis = \<lambda>t nb nd. Inr (\<lambda>x. [[1]]), h_pinv = Inr, h_inv = Inr,
      h_cond = \<lambda>A. Inr (Fin 1)\<rparr>
     \<lparr>n_Ewc_Ewwc = \<lambda>yc Hc mu_w sig_w_inv BETA. Inr ([mu_w], [[[1]]]),
      n_E_mu = \<lambda>Ewc. concat Ewc, n_E_sigma = \<lambda>mu_w yc Hc Ewc Ewwc. [[1]],
      n_E_beta = \<lambda>yc Hc Ewc Ewwc ndim Mstar. Fin 1,
      n_L_pYw = \<lambda>yc Hc Ewc Ewwc ndim Mstar BETA. Fin 0,
      n_det_prior = \<lambda>Ewc Ewwc mu_w sig_w sig_w_inv ndim nbasis. Fin 0\<rparr>
     [([0, 1], [[0, 0], [1, 1]])]
     [''model_type'' \<mapsto> PInt 3] = Inl TypeError"
    using Model_init_rejects_settings
      [of "[''model_type'' \<mapsto> PInt 3]"
          "\<lparr>h_getDimension = \<lambda>c. Inr 2, h_outline = \<lambda>c. Inr [0, 1, 0, 1], h_norm = \<lambda>c ol. Inr c,
      h_nearest_spd = \<lambda>A. A, h_Basis = \<lambda>t nb nd. Inr (\<lambda>x. [[1]]), h_pinv = Inr, h_inv = Inr,
      h_cond = \<lambda>A. Inr (Fin 1)\<rparr>"
          "\<lparr>n_Ewc_Ewwc = \<lambda>yc Hc mu_w sig_w_inv BETA. Inr ([mu_w], [[[1]]]),
      n_E_mu = \<lambda>Ewc. concat Ewc, n_E_sigma = \<lambda>mu_w yc Hc Ewc Ewwc. [[1]],
      n_E_beta = \<lambda>yc Hc Ewc Ewwc ndim Mstar. Fin 1,
      n_L_pYw = \<lambda>yc Hc Ewc Ewwc ndim Mstar BETA. Fin 0,
      n_det_prior = \<lambda>Ewc Ewwc mu_w sig_w sig_w_inv ndim nbasis. Fin 0\<rparr>"
          "[([0, 1], [[0, 0], [1, 1]])]" 3]
    by (simp)
  show "Model_init
     \<lparr>h_getDimension = \<lambda>c. Inr 2, h_outline = \<lambda>c. Inr [0, 1, 0, 1], h_norm = \<lambda>c ol. Inr c,
      h_nearest_spd = \<lambda>A. A, h_Basis = \<lambda>t nb nd. Inr (\<lambda>x. [[1]]), h_pinv = Inr, h_inv = Inr,
      h_cond = \<lambda>A. Inr (Fin 1)\<rparr>
     \<lparr>n_Ewc_Ewwc = \<lambda>yc Hc mu_w sig_w_inv BETA. Inr ([mu_w], [[[1]]]),
      n_E_mu = \<lambda>Ewc. concat Ewc, n_E_sigma = \<lambda>mu_w yc Hc Ewc Ewwc. [[1]],
      n_E_beta = \<lambda>yc Hc Ewc Ewwc ndim Mstar. Fin 1,
      n_L_pYw = \<lambda>yc Hc Ewc Ewwc ndim Mstar BETA. Fin 0,
      n_det_prior = \<lambda>Ewc Ewwc mu_w sig_w sig_w_inv ndim nbasis. Fin 0\<rparr>
     [([0, 1], [[0, 0], [1, 1]])]
     [''model_type'' \<mapsto> PStr ''EM''] = Inl ValueError"
    using Model_init_rejects_settings
      [of "[''model_type'' \<mapsto> PStr ''EM'']"
          "\<lparr>h_getDimension = \<lambda>c. Inr 2, h_outline = \<lambda>c. Inr [0, 1, 0, 1], h_norm = \<lambda>c ol. Inr c,
      h_nearest_spd = \<lambda>A. A, h_Basis = \<lambda>t nb nd. Inr (\<lambda>x. [[1]]), h_pinv = Inr, h_inv = Inr,
      h_cond = \<lambda>A. Inr (Fin 1)\<rparr>"
          "\<lparr>n_Ewc_Ewwc = \<lambda>yc Hc mu_w sig_w_inv BETA. Inr ([mu_w], [[[1]]]),
      n_E_mu = \<lambda>Ewc. concat Ewc, n_E_sigma = \<lambda>mu_w yc Hc Ewc Ewwc. [[1]],
      n_E_beta = \<lambda>yc Hc Ewc Ewwc ndim Mstar. Fin 1,
      n_L_pYw = \<lambda>yc Hc Ewc Ewwc ndim Mstar BETA. Fin 0,
      n_det_prior = \<lambda>Ewc Ewwc mu_w sig_w sig_w_inv ndim nbasis. Fin 0\<rparr>"
          "[([0, 1], [[0, 0], [1, 1]])]" _ "''EM''"]
    by (simp)
  show "Model_init
     \<lparr>h_getDimension = \<lambda>c. Inr 2, h_outline = \<lambda>c. Inr [0, 1, 0, 1], h_norm = \<lambda>c ol. Inr c,
      h_nearest_spd = \<lambda>A. A, h_Basis = \<lambda>t nb nd. Inr (\<lambda>x. [[1]]), h_pinv = Inr, h_inv = Inr,
      h_cond = \<lambda>A. Inr (Fin 1)\<rparr>
     \<lparr>n_Ewc_Ewwc = \<lambda>yc Hc mu_w sig_w_inv BETA. Inr ([mu_w], [[[1]]]),
      n_E_mu = \<lambda>Ewc. concat Ewc, n_E_sigma = \<lambda>mu_w yc Hc Ewc Ewwc. [[1]],
      n_E_beta = \<lambda>yc Hc Ewc Ewwc ndim Mstar. Fin 1,
      n_L_pYw = \<lambda>yc Hc Ewc Ewwc ndim Mstar BETA. Fin 0,
      n_det_prior = \<lambda>Ewc Ewwc mu_w sig_w sig_w_inv ndim nbasis. Fin 0\<rparr>
     [([0, 1], [[0, 0], [1, 1]])]
     [''model_type'' \<mapsto> PStr ''EM'', ''ngaus'' \<mapsto> PFloat 2] = Inl TypeError"
    using Model_init_rejects_settings
      [of "[''model_type'' \<mapsto> PStr ''EM'', ''ngaus'' \<mapsto> PFloat 2]"
          "\<lparr>h_getDimension = \<lambda>c. Inr 2, h_outline = \<lambda>c. Inr [0, 1, 0, 1], h_norm = \<lambda>c ol. Inr c,
      h_nearest_spd = \<lambda>A. A, h_Basis = \<lambda>t nb nd. Inr (\<lambda>x. [[1]]), h_pinv = Inr, h_inv = Inr,
      h_cond = \<lambda>A. Inr (Fin 1)\<rparr>"
          "\<lparr>n_Ewc_Ewwc = \<lambda>yc Hc mu_w sig_w_inv BETA. Inr ([mu_w], [[[1]]]),
      n_E_mu = \<lambda>Ewc. concat Ewc, n_E_sigma = \<lambda>mu_w yc Hc Ewc Ewwc. [[1]],
      n_E_beta = \<lambda>yc Hc Ewc Ewwc ndim Mstar. Fin 1,
      n_L_pYw = \<lambda>yc Hc Ewc Ewwc ndim Mstar BETA. Fin 0,
      n_det_prior = \<lambda>Ewc Ewwc mu_w sig_w sig_w_inv ndim nbasis. Fin 0\<rparr>"
          "[([0, 1], [[0, 0], [1, 1]])]" _ "''EM''" 2]
    by (simp)
  show "Model_init
     \<lparr>h_getDimension = \<lambda>c. Inr 2, h_outline = \<lambda>c. Inr [0, 1, 0, 1], h_norm = \<lambda>c ol. Inr c,
      h_nearest_spd = \<lambda>A. A, h_Basis = \<lambda>t nb nd. Inr (\<lambda>x. [[1]]), h_pinv = Inr, h_inv = Inr,
      h_cond = \<lambda>A. Inr (Fin 1)\<rparr>
     \<lparr>n_Ewc_Ewwc = \<lambda>yc Hc mu_w sig_w_inv BETA. Inr ([mu_w], [[[1]]]),
      n_E_mu = \<lambda>Ewc. concat Ewc, n_E_sigma = \<lambda>mu_w yc Hc Ewc Ewwc. [[1]],
      n_E_beta = \<lambda>yc Hc Ewc Ewwc ndim Mstar. Fin 1,
      n_L_pYw = \<lambda>yc Hc Ewc Ewwc ndim Mstar BETA. Fin 0,
      n_det_prior = \<lambda>Ewc Ewwc mu_w sig_w sig_w_inv ndim nbasis. Fin 0\<rparr>
     [([0, 1], [[0, 0], [1, 1]])]
     [''model_type'' \<mapsto> PStr ''EM'', ''ngaus'' \<mapsto> PInt 5,
      ''basis_type'' \<mapsto> PStr ''gaussian'', ''nbasis'' \<mapsto> PInt 1] = Inl ValueError"
    using Model_init_rejects_settings
      [of "[''model_type'' \<mapsto> PStr ''EM'', ''ngaus'' \<mapsto> PInt 5,
      ''basis_type'' \<mapsto> PStr ''gaussian'', ''nbasis'' \<mapsto> PInt 1]"
          "\<lparr>h_getDimension = \<lambda>c. Inr 2, h_outline = \<lambda>c. Inr [0, 1, 0, 1], h_norm = \<lambda>c ol. Inr c,
      h_nearest_spd = \<lambda>A. A, h_Basis = \<lambda>t nb nd. Inr (\<lambda>x. [[1]]), h_pinv = Inr, h_inv = Inr,
      h_cond = \<lambda>A. Inr (Fin 1)\<rparr>"
          "\<lparr>n_Ewc_Ewwc = \<lambda>yc Hc mu_w sig_w_inv BETA. Inr ([mu_w], [[[1]]]),
      n_E_mu = \<lambda>Ewc. concat Ewc, n_E_sigma = \<lambda>mu_w yc Hc Ewc Ewwc. [[1]],
      n_E_beta = \<lambda>yc Hc Ewc Ewwc ndim Mstar. Fin 1,
      n_L_pYw = \<lambda>yc Hc Ewc Ewwc ndim Mstar BETA. Fin 0,
      n_det_prior = \<lambda>Ewc Ewwc mu_w sig_w sig_w_inv ndim nbasis. Fin 0\<rparr>"
          "[([0, 1], [[0, 0], [1, 1]])]" _ "''EM''" _ 5]
    by (simp)
  show "Model_init
     \<lparr>h_getDimension = \<lambda>c. Inr 2, h_outline = \<lambda>c. Inr [0, 1, 0, 1], h_norm = \<lambda>c ol. Inr c,
      h_nearest_spd = \<lambda>A. A, h_Basis = \<lambda>t nb nd. Inr (\<lambda>x. [[1]]), h_pinv = Inr, h_inv = Inr,
      h_cond = \<lambda>A. Inr (Fin 1)\<rparr>
     \<lparr>n_Ewc_Ewwc = \<lambda>yc Hc mu_w sig_w_inv BETA. Inr ([mu_w], [[[1]]]),
      n_E_mu = \<lambda>Ewc. concat Ewc, n_E_sigma = \<lambda>mu_w yc Hc Ewc Ewwc. [[1]],
      n_E_beta = \<lambda>yc Hc Ewc Ewwc ndim Mstar. Fin 1,
      n_L_pYw = \<lambda>yc Hc Ewc Ewwc ndim Mstar BETA. Fin 0,
      n_det_prior = \<lambda>Ewc Ewwc mu_w sig_w sig_w_inv ndim nbasis. Fin 0\<rparr>
     [([0, 1], [[0, 0], [1, 1]])]
     [''model_type'' \<mapsto> PStr ''spline'', ''ngaus'' \<mapsto> PInt 5] = Inl NotImplementedError"
    using Model_init_rejects_settings
      [of "[''model_type'' \<mapsto> PStr ''spline'', ''ngaus'' \<mapsto> PInt 5]"
          "\<lparr>h_getDimension = \<lambda>c. Inr 2, h_outline = \<lambda>c. Inr [0, 1, 0, 1], h_norm = \<lambda>c ol. Inr c,
      h_nearest_spd = \<lambda>A. A, h_Basis = \<lambda>t nb nd. Inr (\<lambda>x. [[1]]), h_pinv = Inr, h_inv = Inr,
      h_cond = \<lambda>A. Inr (Fin 1)\<rparr>"
          "\<lparr>n_Ewc_Ewwc = \<lambda>yc Hc mu_w sig_w_inv BETA. Inr ([mu_w], [[[1]]]),
      n_E_mu = \<lambda>Ewc. concat Ewc, n_E_sigma = \<lambda>mu_w yc Hc Ewc Ewwc. [[1]],
      n_E_beta = \<lambda>yc Hc Ewc Ewwc ndim Mstar. Fin 1,
      n_L_pYw = \<lambda>yc Hc Ewc Ewwc ndim Mstar BETA. Fin 0,
      n_det_prior = \<lambda>Ewc Ewwc mu_w sig_w sig_w_inv ndim nbasis. Fin 0\<rparr>"
          "[([0, 1], [[0, 0], [1, 1]])]" _ "''spline''" _ 5 2]
    by (simp add: normalise_data_def GaussianProcess_init_def)
qed

end
